(* ===== verification/Prelude.thy ===== *)
theory Prelude
  imports Complex_Main "HOL-Library.AList"
begin

text \<open>
  Shared vocabulary of the development: the lemma collections the component
  theories feed and use, the association-list representation of JavaScript
  objects (insertion ordered, as the language orders string keys), object
  spread \<open>{...a, ...b}\<close> over it, and the list lemmas the string scanners
  share.
\<close>

named_theorems js_eval "evaluation rules of the JavaScript value model"
named_theorems page_simps "characteristic equations of the page handlers"

section \<open>Objects as insertion-ordered association lists\<close>

type_synonym 'v obj = "(string \<times> 'v) list"

text \<open>
  Object spread \<open>{...a, ...b}\<close> copies the own properties of \<open>b\<close> into a copy
  of \<open>a\<close> from left to right: an existing key keeps its position and takes the
  new value, a new key is appended. \<open>AList.update\<close> is exactly one such
  property assignment.
\<close>

definition spread :: "('k \<times> 'v) list \<Rightarrow> ('k \<times> 'v) list \<Rightarrow> ('k \<times> 'v) list" where
  "spread xs ys = foldl (\<lambda>acc (k, v). AList.update k v acc) xs ys"

lemma spread_Nil [simp]: "spread xs [] = xs"
  by (simp add: spread_def)

lemma spread_Cons [simp]: "spread xs (p # ys) = spread (AList.update (fst p) (snd p) xs) ys"
  by (cases p) (simp add: spread_def)

lemma spread_snoc: "spread xs (ys @ [(k, v)]) = AList.update k v (spread xs ys)"
  by (simp add: spread_def)

text \<open>Later properties override earlier ones: the map of a spread is the map
  override with the last occurrence of each key of the right operand.\<close>

lemma map_of_spread [simp]: "map_of (spread xs ys) = map_of xs ++ map_of (rev ys)"
proof (induction ys arbitrary: xs)
  case Nil
  then show ?case by simp
next
  case (Cons p ys)
  obtain k v where p: "p = (k, v)" by (cases p)
  have "map_of (rev (p # ys)) = [k \<mapsto> v] ++ map_of (rev ys)"
    by (simp add: p)
  then have eq: "map_of xs ++ map_of (rev (p # ys)) = (map_of xs)(k \<mapsto> v) ++ map_of (rev ys)"
    by (simp add: map_add_assoc[symmetric])
  have "map_of (spread xs (p # ys)) = map_of (AList.update k v xs) ++ map_of (rev ys)"
    by (simp only: p spread_Cons fst_conv snd_conv Cons.IH)
  also have "\<dots> = (map_of xs)(k \<mapsto> v) ++ map_of (rev ys)"
    by (simp only: update_conv')
  also have "\<dots> = map_of xs ++ map_of (rev (p # ys))"
    by (fact eq[symmetric])
  finally show ?case .
qed

lemma keys_spread [simp]: "fst ` set (spread xs ys) = fst ` set xs \<union> fst ` set ys"
  by (induction ys arbitrary: xs) (auto simp: dom_update)

lemma distinct_spread [intro]: "distinct (map fst xs) \<Longrightarrow> distinct (map fst (spread xs ys))"
  by (induction ys arbitrary: xs) (auto intro: distinct_update)

text \<open>Spreading into an empty object (\<open>{...null, ...d}\<close>) reproduces \<open>d\<close>
  when \<open>d\<close> has no duplicate keys.\<close>

lemma update_new_key: "k \<notin> fst ` set al \<Longrightarrow> AList.update k v al = al @ [(k, v)]"
  by (induction al) auto

lemma map_of_rev_distinct: "distinct (map fst ys) \<Longrightarrow> map_of (rev ys) = map_of ys"
proof (induction ys)
  case Nil
  then show ?case by simp
next
  case (Cons p ys)
  obtain k v where p: "p = (k, v)" by (cases p)
  from Cons.prems have k: "k \<notin> dom (map_of ys)" by (simp add: p dom_map_of_conv_image_fst)
  have "map_of (rev (p # ys)) = [k \<mapsto> v] ++ map_of ys"
    using Cons by (simp add: p)
  also have "\<dots> = map_of ys ++ [k \<mapsto> v]"
    using k by (intro map_add_comm) auto
  finally show ?case by (simp add: p)
qed

lemma spread_into_Nil: "distinct (map fst ys) \<Longrightarrow> spread [] ys = ys"
proof (induction ys rule: rev_induct)
  case Nil
  then show ?case by simp
next
  case (snoc p ys)
  obtain k v where p: "p = (k, v)" by (cases p)
  from snoc.prems have "distinct (map fst ys)" and "k \<notin> fst ` set ys"
    by (auto simp: p)
  with snoc.IH show ?case
    by (simp add: p spread_snoc update_new_key)
qed

lemma map_of_spread_distinct:
  "distinct (map fst ys) \<Longrightarrow> map_of (spread xs ys) = map_of xs ++ map_of ys"
  by (simp add: map_of_rev_distinct)

section \<open>Sequencing fallible steps\<close>

text \<open>Sequencing on \<open>'e + 'a\<close>: the first \<open>Inl\<close> (a thrown error) ends
  the sequence, as an exception leaves the rest of a statement list unrun.\<close>

definition sbind :: "'e + 'a \<Rightarrow> ('a \<Rightarrow> 'e + 'b) \<Rightarrow> 'e + 'b" where
  "sbind r f = (case r of Inl e \<Rightarrow> Inl e | Inr x \<Rightarrow> f x)"

lemma sbind_Inl [simp]: "sbind (Inl e) f = Inl e"
  and sbind_Inr [simp]: "sbind (Inr x) f = f x"
  by (simp_all add: sbind_def)

lemma sbind_eq_Inr: "sbind r f = Inr y \<longleftrightarrow> (\<exists>x. r = Inr x \<and> f x = Inr y)"
  by (cases r) auto

section \<open>Joining strings\<close>

text \<open>\<open>Array.prototype.join\<close>: the parts separated by \<open>sep\<close>.\<close>

fun join :: "'a list \<Rightarrow> 'a list list \<Rightarrow> 'a list" where
  "join sep [] = []"
| "join sep [x] = x"
| "join sep (x # y # xs) = x @ sep @ join sep (y # xs)"

lemma join_append_single: "xs \<noteq> [] \<Longrightarrow> join sep (xs @ [y]) = join sep xs @ sep @ y"
  by (induction sep xs rule: join.induct) auto

section \<open>Scanning prefixes of lists\<close>

lemma dropWhile_hd_not:
  "dropWhile P xs = y # ys \<Longrightarrow> \<not> P y"
  by (induction xs) (auto split: if_splits)

section \<open>Lists mapped onto themselves\<close>

lemma map_eq_self_iff: "map f xs = xs \<longleftrightarrow> (\<forall>x \<in> set xs. f x = x)"
  by (induction xs) auto

lemma length_concat_map_le:
  "\<forall>p \<in> set ps. length (g p) \<le> 1 \<Longrightarrow> length (concat (map g ps)) \<le> length ps"
  by (induction ps) fastforce+

lemma concat_map_single:
  assumes "\<forall>p \<in> set ps. length (g p) \<le> 1" and "concat (map g ps) = ps"
  shows "\<forall>p \<in> set ps. g p = [p]"
  using assms
proof (induction ps)
  case Nil
  then show ?case by simp
next
  case (Cons p ps)
  have len: "length (concat (map g ps)) \<le> length ps"
    using Cons.prems(1) by (intro length_concat_map_le) simp
  show ?case
  proof (cases "g p")
    case Nil
    with Cons.prems(2) have "concat (map g ps) = p # ps" by simp
    with len show ?thesis by (metis impossible_Cons)
  next
    case (Cons q qs)
    with Cons.prems(1) have q: "g p = [q]" by auto
    with Cons.prems(2) have "q = p" and rest: "concat (map g ps) = ps" by simp_all
    with Cons.IH Cons.prems(1) q show ?thesis by simp
  qed
qed

section \<open>Folds that leave a component alone\<close>

lemma fold_preserves: "(\<And>x s. h (f x s) = h s) \<Longrightarrow> h (fold f xs s) = h s"
  by (induction xs arbitrary: s) simp_all

end
