(* ===== verification/Js_Values.thy ===== *)
theory Js_Values
  imports Prelude
begin

text \<open>
  The ECMAScript values and conversions the three page scripts depend on:
  JSON-shaped values, \<open>ToBoolean\<close> (truthiness, used by every \<open>||\<close> and
  \<open>if (x)\<close> of the scripts), property reads that throw on \<open>null\<close> and
  \<open>undefined\<close>, \<open>ToString\<close> (template literals, \<open>localStorage.setItem\<close>,
  \<open>new Error(x)\<close>), \<open>String.prototype.trim\<close>, \<open>parseInt\<close>,
  \<open>parseFloat\<close> and \<open>ToNumber\<close> on strings.
  Numbers are exact rationals plus \<open>NaN\<close> and the two infinities: the
  scripts only parse decimal literals and divide once before rounding, and the
  rounding of binary64 is not modelled. Strings are lists of 8-bit
  \<open>char\<close>, read as Latin-1 code units, so the white space of the language
  within that range is exactly the set in \<open>js_ws\<close>.
\<close>

section \<open>Values\<close>

datatype jnum = Num rat | NaN | PosInf | NegInf

datatype jsval =
    JUndef
  | JNull
  | JBool bool
  | JNumber jnum
  | JStr string
  | JArr "jsval list"
  | JObj "jsval obj"

datatype js_error =
    Error string
  | TypeError string
  | SyntaxError string

primrec err_message :: "js_error \<Rightarrow> string" where
  "err_message (Error m) = m"
| "err_message (TypeError m) = m"
| "err_message (SyntaxError m) = m"

section \<open>ToBoolean and the \<open>||\<close> operator\<close>

fun truthy :: "jsval \<Rightarrow> bool" where
  "truthy JUndef = False"
| "truthy JNull = False"
| "truthy (JBool b) = b"
| "truthy (JNumber (Num r)) = (r \<noteq> 0)"
| "truthy (JNumber NaN) = False"
| "truthy (JNumber PosInf) = True"
| "truthy (JNumber NegInf) = True"
| "truthy (JStr s) = (s \<noteq> [])"
| "truthy (JArr xs) = True"
| "truthy (JObj ps) = True"

definition js_or :: "jsval \<Rightarrow> jsval \<Rightarrow> jsval" where
  "js_or a b = (if truthy a then a else b)"

lemma js_or_truthy [simp, js_eval]: "truthy a \<Longrightarrow> js_or a b = a"
  and js_or_falsy [simp, js_eval]: "\<not> truthy a \<Longrightarrow> js_or a b = b"
  by (simp_all add: js_or_def)

section \<open>Property reads\<close>

text \<open>
  \<open>v.k\<close> throws a TypeError (V8's message) on \<open>null\<close> and \<open>undefined\<close>,
  reads an own property of an object (\<open>undefined\<close> when absent), the
  \<open>length\<close> of a string or array, and \<open>undefined\<close> otherwise. Only own
  properties are modelled: none of the keys the scripts read is inherited from
  \<open>Object.prototype\<close>.
\<close>

fun get_prop :: "jsval \<Rightarrow> string \<Rightarrow> js_error + jsval" where
  "get_prop JUndef k =
     Inl (TypeError (''Cannot read properties of undefined (reading '' @ [CHR 0x27] @ k @ [CHR 0x27] @ '')''))"
| "get_prop JNull k =
     Inl (TypeError (''Cannot read properties of null (reading '' @ [CHR 0x27] @ k @ [CHR 0x27] @ '')''))"
| "get_prop (JObj ps) k = Inr (case map_of ps k of None \<Rightarrow> JUndef | Some v \<Rightarrow> v)"
| "get_prop (JStr s) k = Inr (if k = ''length'' then JNumber (Num (of_nat (length s))) else JUndef)"
| "get_prop (JArr xs) k = Inr (if k = ''length'' then JNumber (Num (of_nat (length xs))) else JUndef)"
| "get_prop (JBool b) k = Inr JUndef"
| "get_prop (JNumber n) k = Inr JUndef"

lemma get_prop_Inl_iff [js_eval]: "(\<exists>e. get_prop v k = Inl e) \<longleftrightarrow> v = JUndef \<or> v = JNull"
  by (cases v) auto

text \<open>The value of a property read on an object, \<open>undefined\<close> when missing.\<close>

definition obj_get :: "jsval obj \<Rightarrow> string \<Rightarrow> jsval" where
  "obj_get ps k = (case map_of ps k of None \<Rightarrow> JUndef | Some v \<Rightarrow> v)"

lemma get_prop_JObj [simp, js_eval]: "get_prop (JObj ps) k = Inr (obj_get ps k)"
  by (simp add: obj_get_def)

declare get_prop.simps(3) [simp del]

section \<open>ToString\<close>

fun nat_str :: "nat \<Rightarrow> string" where
  "nat_str n = (if n < 10 then [char_of (48 + n)] else nat_str (n div 10) @ [char_of (48 + n mod 10)])"

declare nat_str.simps [simp del]

definition int_str :: "int \<Rightarrow> string" where
  "int_str i = (if i < 0 then CHR ''-'' # nat_str (nat (- i)) else nat_str (nat i))"

text \<open>Fraction digits of a number in \<open>[0, 1)\<close>, at most \<open>k\<close> of them, stopping
  when the expansion terminates.\<close>

fun frac_digits :: "nat \<Rightarrow> rat \<Rightarrow> string" where
  "frac_digits 0 f = []"
| "frac_digits (Suc k) f =
     (if f = 0 then []
      else char_of (48 + nat \<lfloor>f * 10\<rfloor>) # frac_digits k (f * 10 - of_int \<lfloor>f * 10\<rfloor>))"

text \<open>
  \<open>Number::toString\<close>: exact for integers and for terminating decimals of at
  most twenty fraction digits below \<open>10^21\<close>, the only numbers the pages print
  (percentages, scores and counts).
\<close>

fun num_str :: "jnum \<Rightarrow> string" where
  "num_str NaN = ''NaN''"
| "num_str PosInf = ''Infinity''"
| "num_str NegInf = ''-Infinity''"
| "num_str (Num r) =
     (let a = \<bar>r\<bar>; ip = \<lfloor>a\<rfloor>; fd = frac_digits 20 (a - of_int ip)
      in (if r < 0 then ''-'' else []) @ nat_str (nat ip) @ (if fd = [] then [] else CHR ''.'' # fd))"

text \<open>\<open>ToString\<close>; an array joins its elements with commas, \<open>null\<close> and
  \<open>undefined\<close> elements printing as the empty string.\<close>

fun to_str :: "jsval \<Rightarrow> string" where
  "to_str JUndef = ''undefined''"
| "to_str JNull = ''null''"
| "to_str (JBool b) = (if b then ''true'' else ''false'')"
| "to_str (JNumber n) = num_str n"
| "to_str (JStr s) = s"
| "to_str (JArr xs) = join '','' (map (\<lambda>x. if x = JUndef \<or> x = JNull then [] else to_str x) xs)"
| "to_str (JObj ps) = ''[object Object]''"

section \<open>Strings: white space, trim and number scanning\<close>

definition js_ws :: "char \<Rightarrow> bool" where
  "js_ws c \<longleftrightarrow> (of_char c :: nat) \<in> {9, 10, 11, 12, 13, 32, 160}"

definition trim_start :: "string \<Rightarrow> string" where
  "trim_start s = dropWhile js_ws s"

text \<open>\<open>String.prototype.trim\<close>.\<close>

definition js_trim :: "string \<Rightarrow> string" where
  "js_trim s = rev (dropWhile js_ws (rev (dropWhile js_ws s)))"

definition is_digit :: "char \<Rightarrow> bool" where
  "is_digit c \<longleftrightarrow> (48::nat) \<le> of_char c \<and> of_char c \<le> (57::nat)"

definition hex_val :: "char \<Rightarrow> nat option" where
  "hex_val c = (let n = (of_char c :: nat) in
     if 48 \<le> n \<and> n \<le> 57 then Some (n - 48)
     else if 97 \<le> n \<and> n \<le> 102 then Some (n - 87)
     else if 65 \<le> n \<and> n \<le> 70 then Some (n - 55)
     else None)"

definition digit_in :: "nat \<Rightarrow> char \<Rightarrow> bool" where
  "digit_in radix c \<longleftrightarrow> (case hex_val c of Some d \<Rightarrow> d < radix | None \<Rightarrow> False)"

definition digits_val :: "nat \<Rightarrow> string \<Rightarrow> nat" where
  "digits_val radix ds = foldl (\<lambda>n c. radix * n + (case hex_val c of Some d \<Rightarrow> d | None \<Rightarrow> 0)) 0 ds"

text \<open>An optional sign: \<open>True\<close> when it is a minus.\<close>

definition split_sign :: "string \<Rightarrow> bool \<times> string" where
  "split_sign s = (case s of
      c # r \<Rightarrow> if c = CHR ''-'' then (True, r) else if c = CHR ''+'' then (False, r) else (False, s)
    | [] \<Rightarrow> (False, []))"

fun jneg :: "jnum \<Rightarrow> jnum" where
  "jneg (Num r) = Num (- r)"
| "jneg NaN = NaN"
| "jneg PosInf = NegInf"
| "jneg NegInf = PosInf"

text \<open>\<open>parseInt(s)\<close> with no radix: leading white space, a sign, a
  \<open>0x\<close>/\<open>0X\<close> prefix selecting radix 16, then the longest run of digits
  of the radix; no digit gives \<open>NaN\<close>.\<close>

definition parse_int :: "string \<Rightarrow> jnum" where
  "parse_int s =
     (let (neg, s2) = split_sign (trim_start s);
          (radix, s3) = (if take 2 s2 = ''0x'' \<or> take 2 s2 = ''0X'' then (16, drop 2 s2) else (10, s2));
          ds = takeWhile (digit_in radix) s3
      in if ds = [] then NaN
         else (let v = Num (of_nat (digits_val radix ds)) in if neg then jneg v else v))"

text \<open>The exponent part of a \<open>StrDecimalLiteral\<close>: taken only when digits
  follow the \<open>e\<close> and its optional sign.\<close>

definition scan_exp :: "string \<Rightarrow> int \<times> string" where
  "scan_exp s = (case s of
      c # r \<Rightarrow>
        if c = CHR ''e'' \<or> c = CHR ''E'' then
          (let (neg, r2) = split_sign r; ds = takeWhile is_digit r2
           in if ds = [] then (0, s)
              else ((if neg then -1 else 1) * int (digits_val 10 ds), dropWhile is_digit r2))
        else (0, s)
    | [] \<Rightarrow> (0, []))"

text \<open>The longest prefix that is a \<open>StrUnsignedDecimalLiteral\<close>, its value
  and the rest of the string.\<close>

definition scan_unsigned :: "string \<Rightarrow> (jnum \<times> string) option" where
  "scan_unsigned s =
     (if take 8 s = ''Infinity'' then Some (PosInf, drop 8 s)
      else
        let ip = takeWhile is_digit s; r1 = dropWhile is_digit s;
            (fp, r2) = (case r1 of
                c # r \<Rightarrow> if c = CHR ''.'' then (takeWhile is_digit r, dropWhile is_digit r) else ([], r1)
              | [] \<Rightarrow> ([], []))
        in if ip = [] \<and> fp = [] then None
           else
             let (e, r3) = scan_exp r2;
                 m = (of_nat (digits_val 10 (ip @ fp)) :: rat) / 10 ^ length fp
             in Some (Num (if 0 \<le> e then m * 10 ^ nat e else m / 10 ^ nat (- e)), r3))"

definition scan_decimal :: "string \<Rightarrow> (jnum \<times> string) option" where
  "scan_decimal s =
     (let (neg, r) = split_sign s
      in map_option (\<lambda>(n, rest). (if neg then jneg n else n, rest)) (scan_unsigned r))"

text \<open>\<open>parseFloat(s)\<close>: the value of the longest decimal-literal prefix
  after leading white space, \<open>NaN\<close> when there is none.\<close>

definition parse_float :: "string \<Rightarrow> jnum" where
  "parse_float s = (case scan_decimal (trim_start s) of None \<Rightarrow> NaN | Some (n, _) \<Rightarrow> n)"

text \<open>The non-decimal integer literals \<open>0x\<close>, \<open>0o\<close>, \<open>0b\<close> of
  \<open>StringToNumber\<close>: the whole string must be digits of the radix.\<close>

definition scan_nondecimal :: "string \<Rightarrow> jnum option" where
  "scan_nondecimal t =
     (let p = take 2 t; ds = drop 2 t;
          radix = (if p = ''0x'' \<or> p = ''0X'' then 16 else if p = ''0o'' \<or> p = ''0O'' then 8
                   else if p = ''0b'' \<or> p = ''0B'' then 2 else 0)
      in if radix \<noteq> 0 \<and> ds \<noteq> [] \<and> list_all (digit_in radix) ds
         then Some (Num (of_nat (digits_val radix ds))) else None)"

text \<open>\<open>StringToNumber\<close>: the whole trimmed string must be a numeric literal;
  the empty string is \<open>0\<close>.\<close>

definition string_to_number :: "string \<Rightarrow> jnum" where
  "string_to_number s =
     (let t = js_trim s in
      if t = [] then Num 0
      else case scan_nondecimal t of
          Some n \<Rightarrow> n
        | None \<Rightarrow> (case scan_decimal t of Some (n, []) \<Rightarrow> n | _ \<Rightarrow> NaN))"

fun to_number :: "jsval \<Rightarrow> jnum" where
  "to_number JUndef = NaN"
| "to_number JNull = Num 0"
| "to_number (JBool b) = Num (if b then 1 else 0)"
| "to_number (JNumber n) = n"
| "to_number (JStr s) = string_to_number s"
| "to_number (JArr xs) = string_to_number (to_str (JArr xs))"
| "to_number (JObj ps) = string_to_number (to_str (JObj ps))"

section \<open>Upper case\<close>

text \<open>
  \<open>String.prototype.toUpperCase\<close> on Latin-1 text: ASCII and Latin-1
  lower-case letters map to their capitals, the sharp s (U+00DF) to \<open>SS\<close>. The
  two Latin-1 letters whose capitals lie outside Latin-1, U+00B5 and U+00FF,
  are left unchanged (a limit of the 8-bit string model). Calling the method
  on \<open>undefined\<close>/\<open>null\<close>, or on a value without it, throws a TypeError.
\<close>

definition js_upper_char :: "char \<Rightarrow> string" where
  "js_upper_char c =
     (let n = (of_char c :: nat) in
      if n = 223 then ''SS''
      else if (97 \<le> n \<and> n \<le> 122) \<or> (224 \<le> n \<and> n \<le> 254 \<and> n \<noteq> 247) then [char_of (n - 32)]
      else [c])"

fun to_upper_case :: "jsval \<Rightarrow> js_error + string" where
  "to_upper_case (JStr cs) = Inr (concat (map js_upper_char cs))"
| "to_upper_case JUndef = Inl (TypeError (''Cannot read properties of undefined (reading '' @ [CHR 0x27] @ ''toUpperCase'' @ [CHR 0x27] @ '')''))"
| "to_upper_case JNull = Inl (TypeError (''Cannot read properties of null (reading '' @ [CHR 0x27] @ ''toUpperCase'' @ [CHR 0x27] @ '')''))"
| "to_upper_case v = Inl (TypeError ''toUpperCase is not a function'')"

text \<open>Assigning a value to \<open>textContent\<close>: \<open>null\<close> gives the empty string,
  any other value its string conversion.\<close>

definition text_content :: "jsval \<Rightarrow> string" where
  "text_content v = (if v = JNull then [] else to_str v)"

section \<open>Relational comparison with a number literal\<close>

fun jnum_ge :: "jnum \<Rightarrow> rat \<Rightarrow> bool" where
  "jnum_ge (Num x) r = (r \<le> x)"
| "jnum_ge NaN r = False"
| "jnum_ge PosInf r = True"
| "jnum_ge NegInf r = False"

fun jnum_gt :: "jnum \<Rightarrow> rat \<Rightarrow> bool" where
  "jnum_gt (Num x) r = (r < x)"
| "jnum_gt NaN r = False"
| "jnum_gt PosInf r = True"
| "jnum_gt NegInf r = False"

section \<open>JSON round trip\<close>

text \<open>
  What \<open>JSON.parse(JSON.stringify(v))\<close> gives back (\<open>None\<close>: \<open>stringify\<close>
  returns \<open>undefined\<close>): properties whose value is \<open>undefined\<close> are
  dropped, \<open>undefined\<close> array elements and non-finite numbers become
  \<open>null\<close>. Objects are assumed to have distinct keys, as every object the
  pages build does.
\<close>

fun json_roundtrip :: "jsval \<Rightarrow> jsval option" where
  "json_roundtrip JUndef = None"
| "json_roundtrip JNull = Some JNull"
| "json_roundtrip (JBool b) = Some (JBool b)"
| "json_roundtrip (JNumber (Num r)) = Some (JNumber (Num r))"
| "json_roundtrip (JNumber NaN) = Some JNull"
| "json_roundtrip (JNumber PosInf) = Some JNull"
| "json_roundtrip (JNumber NegInf) = Some JNull"
| "json_roundtrip (JStr cs) = Some (JStr cs)"
| "json_roundtrip (JArr xs) = Some (JArr (map (\<lambda>x. case json_roundtrip x of None \<Rightarrow> JNull | Some y \<Rightarrow> y) xs))"
| "json_roundtrip (JObj ps) =
     Some (JObj (concat (map (\<lambda>p. case json_roundtrip (snd p) of None \<Rightarrow> [] | Some y \<Rightarrow> [(fst p, y)]) ps)))"

text \<open>A value JSON represents exactly: no \<open>undefined\<close> and no non-finite
  number anywhere inside.\<close>

fun json_clean :: "jsval \<Rightarrow> bool" where
  "json_clean JUndef = False"
| "json_clean (JNumber n) = (case n of Num r \<Rightarrow> True | _ \<Rightarrow> False)"
| "json_clean (JArr xs) = list_all json_clean xs"
| "json_clean (JObj ps) = list_all (\<lambda>p. json_clean (snd p)) ps"
| "json_clean v = True"

section \<open>Decimal strings of naturals\<close>

text \<open>\<open>nat_str\<close> prints only digits, and scanning them back gives the number:
  the facts behind every parse-after-print property of the pages.\<close>

lemma of_char_digit [simp]: "k < 10 \<Longrightarrow> (of_char (char_of (48 + k)) :: nat) = 48 + k"
  by (simp add: of_char_of)

lemma is_digit_char_of [simp]: "(k::nat) < 10 \<Longrightarrow> is_digit (char_of (48 + k))"
  by (simp add: is_digit_def)

lemma hex_val_digit [simp]: "k < 10 \<Longrightarrow> hex_val (char_of (48 + k)) = Some k"
  by (simp add: hex_val_def)

lemma digits_val_snoc: "digits_val r (xs @ [c]) = r * digits_val r xs + (case hex_val c of Some d \<Rightarrow> d | None \<Rightarrow> 0)"
  by (simp add: digits_val_def)

lemma nat_str_digits: "list_all is_digit (nat_str n)"
proof (induction n rule: nat_str.induct)
  case (1 n)
  then show ?case by (subst nat_str.simps) simp
qed

lemma nat_str_not_Nil [simp]: "nat_str n \<noteq> []"
  by (subst nat_str.simps) simp

lemma digits_val_nat_str [simp]: "digits_val 10 (nat_str n) = n"
proof (induction n rule: nat_str.induct)
  case (1 n)
  show ?case
  proof (cases "n < 10")
    case True
    then show ?thesis by (subst nat_str.simps) (simp add: digits_val_def)
  next
    case False
    with "1.IH" show ?thesis by (subst nat_str.simps) (simp add: digits_val_snoc)
  qed
qed

lemma takeWhile_all_append:
  "list_all P xs \<Longrightarrow> \<not> P c \<Longrightarrow> takeWhile P (xs @ c # r) = xs"
  and dropWhile_all_append:
  "list_all P xs \<Longrightarrow> \<not> P c \<Longrightarrow> dropWhile P (xs @ c # r) = c # r"
  by (induction xs) auto

lemma takeWhile_all [simp]: "list_all P xs \<Longrightarrow> takeWhile P xs = xs"
  and dropWhile_all [simp]: "list_all P xs \<Longrightarrow> dropWhile P xs = []"
  by (induction xs) auto

lemma js_ws_digit: "is_digit c \<Longrightarrow> \<not> js_ws c"
  by (auto simp: is_digit_def js_ws_def)

lemma hd_nat_str_digit: "is_digit (hd (nat_str n))"
  using nat_str_digits[of n] nat_str_not_Nil[of n] by (cases "nat_str n") auto

lemma trim_start_nat_str [simp]: "trim_start (nat_str n @ r) = nat_str n @ r"
proof -
  obtain c cs where "nat_str n = c # cs" by (cases "nat_str n") auto
  moreover have "is_digit c" using hd_nat_str_digit[of n] calculation by simp
  ultimately show ?thesis by (simp add: trim_start_def js_ws_digit)
qed

lemma split_sign_nat_str [simp]: "split_sign (nat_str n @ r) = (False, nat_str n @ r)"
proof -
  obtain c cs where cs: "nat_str n = c # cs" by (cases "nat_str n") auto
  have "is_digit c" using hd_nat_str_digit[of n] cs by simp
  then have "c \<noteq> CHR ''-'' \<and> c \<noteq> CHR ''+''" by (auto simp: is_digit_def)
  then show ?thesis by (simp add: split_sign_def cs)
qed

text \<open>parseFloat of a decimal integer followed by a character that cannot
  continue a literal.\<close>

lemma parse_float_nat_str:
  assumes "\<not> is_digit c" and "c \<noteq> CHR ''.''" and "c \<noteq> CHR ''e''" and "c \<noteq> CHR ''E''"
  shows "parse_float (nat_str n @ c # r) = Num (of_nat n)"
proof -
  have "take 8 (nat_str n @ c # r) \<noteq> ''Infinity''"
  proof
    assume "take 8 (nat_str n @ c # r) = ''Infinity''"
    then have "hd (take 8 (nat_str n @ c # r)) = CHR ''I''" by simp
    then have "hd (nat_str n) = CHR ''I''" by (cases "nat_str n") auto
    with hd_nat_str_digit[of n] show False by (simp add: is_digit_def)
  qed
  with assms show ?thesis
    by (simp add: parse_float_def scan_decimal_def scan_unsigned_def scan_exp_def Let_def
        takeWhile_all_append dropWhile_all_append nat_str_digits)
qed

lemma parse_float_nat_str_end [simp]: "parse_float (nat_str n) = Num (of_nat n)"
proof -
  have "take 8 (nat_str n) \<noteq> ''Infinity''"
  proof
    assume "take 8 (nat_str n) = ''Infinity''"
    then have "hd (take 8 (nat_str n)) = CHR ''I''" by simp
    then have "hd (nat_str n) = CHR ''I''" by (cases "nat_str n") auto
    with hd_nat_str_digit[of n] show False by (simp add: is_digit_def)
  qed
  moreover have "trim_start (nat_str n) = nat_str n" using trim_start_nat_str[of n "[]"] by simp
  moreover have "split_sign (nat_str n) = (False, nat_str n)" using split_sign_nat_str[of n "[]"] by simp
  ultimately show ?thesis
    by (simp add: parse_float_def scan_decimal_def scan_unsigned_def scan_exp_def Let_def nat_str_digits)
qed

lemma char_of_digit [simp]:
  "char_of (48::nat) = CHR ''0''" "char_of (49::nat) = CHR ''1''" "char_of (50::nat) = CHR ''2''"
  "char_of (51::nat) = CHR ''3''" "char_of (52::nat) = CHR ''4''" "char_of (53::nat) = CHR ''5''"
  "char_of (54::nat) = CHR ''6''" "char_of (55::nat) = CHR ''7''" "char_of (56::nat) = CHR ''8''"
  "char_of (57::nat) = CHR ''9''"
  by code_simp+

lemma nat_str_ge10: "10 \<le> n \<Longrightarrow> nat_str n = nat_str (n div 10) @ [char_of (48 + n mod 10)]"
  by (subst nat_str.simps) simp

lemma nat_str_split3:
  assumes "1000 \<le> n"
  shows "\<exists>t. length t = 3 \<and> nat_str n = nat_str (n div 1000) @ t"
proof -
  have a: "nat_str n = nat_str (n div 10) @ [char_of (48 + n mod 10)]"
    using assms by (intro nat_str_ge10) simp
  have b: "nat_str (n div 10) = nat_str (n div 100) @ [char_of (48 + n div 10 mod 10)]"
    using assms nat_str_ge10[of "n div 10"] by (simp add: div_mult2_eq[symmetric])
  have c: "nat_str (n div 100) = nat_str (n div 1000) @ [char_of (48 + n div 100 mod 10)]"
    using assms nat_str_ge10[of "n div 100"] by (simp add: div_mult2_eq[symmetric])
  show ?thesis using a b c by simp
qed

section \<open>Properties of the JSON round trip\<close>

lemma json_roundtrip_clean_iff: "json_roundtrip v = Some v \<longleftrightarrow> json_clean v"
proof (induction v)
  case (JNumber n)
  then show ?case by (cases n) auto
next
  case (JArr xs)
  let ?f = "\<lambda>x. case json_roundtrip x of None \<Rightarrow> JNull | Some y \<Rightarrow> y"
  have "?f x = x \<longleftrightarrow> json_clean x" if "x \<in> set xs" for x
    using JArr.IH[OF that] by (cases "json_roundtrip x"; cases "x = JNull") auto
  then show ?case by (simp add: map_eq_self_iff list_all_iff)
next
  case (JObj ps)
  let ?g = "\<lambda>p. case json_roundtrip (snd p) of None \<Rightarrow> [] | Some y \<Rightarrow> [(fst p, y)]"
  have one: "?g p = [p] \<longleftrightarrow> json_clean (snd p)" if "p \<in> set ps" for p
  proof -
    obtain k w where p: "p = (k, w)" by (cases p)
    have "json_roundtrip w = Some w \<longleftrightarrow> json_clean w"
      using JObj.IH[OF that] by (simp add: p)
    then show ?thesis by (cases "json_roundtrip w") (auto simp: p)
  qed
  have "concat (map ?g ps) = ps \<longleftrightarrow> (\<forall>p \<in> set ps. ?g p = [p])"
  proof
    assume "concat (map ?g ps) = ps"
    then show "\<forall>p \<in> set ps. ?g p = [p]"
      by (intro concat_map_single) (auto split: option.split)
  next
    assume "\<forall>p \<in> set ps. ?g p = [p]"
    then show "concat (map ?g ps) = ps" by (induction ps) auto
  qed
  with one show ?case by (simp add: list_all_iff)
qed auto

end
