(* ===== verification/Browser.thy ===== *)
theory Browser
  imports Js_Values
begin

text \<open>
  The part of the browser the three page scripts touch, as one record that each
  page record extends: \<open>localStorage\<close> (a map from keys to strings),
  navigations requested through \<open>window.location.href\<close> and
  \<open>location.reload()\<close>, the log of \<open>fetch\<close> requests, the clock and the
  pending \<open>setTimeout\<close> callbacks, and the message banner that
  \<open>script.js\<close> and \<open>dashboard.js\<close> both drive with identical
  \<open>showMessage\<close>/\<open>hideMessage\<close> functions.
  The outcome of a request is not computed: the REST API is an external
  collaborator, so each handler takes the outcome of its request as an argument
  (\<open>fetch_outcome\<close>), and a theorem quantifies over all outcomes.
\<close>

section \<open>Requests and their outcomes\<close>

datatype nav = Goto string | Reload

record request =
  req_method :: string
  req_url :: string
  req_auth :: "string option"
  req_body :: "jsval option"

text \<open>
  What \<open>fetch\<close> and \<open>response.json()\<close> deliver: a transport failure
  (\<open>fetch\<close> rejects with a TypeError), or a status and a body that is
  either a JSON value or text that does not parse.
\<close>

datatype fetch_outcome = Net_failure | Response nat "string + jsval"

definition http_ok :: "nat \<Rightarrow> bool" where
  "http_ok st \<longleftrightarrow> 200 \<le> st \<and> st \<le> 299"

definition fetch_error :: js_error where
  "fetch_error = TypeError ''Failed to fetch''"

text \<open>\<open>response.json()\<close>: the parsed body, or the SyntaxError it rejects with
  (the parser's exact message is not modelled).\<close>

definition json_body :: "string + jsval \<Rightarrow> js_error + jsval" where
  "json_body b = (case b of Inl txt \<Rightarrow> Inl (SyntaxError ''Unexpected token in JSON'') | Inr v \<Rightarrow> Inr v)"

section \<open>Timer callbacks\<close>

text \<open>The callbacks the scripts pass to \<open>setTimeout\<close>, with the data they
  close over.\<close>

datatype timer_cb =
    Hide_message
  | Redirect_dashboard
  | Show_login_tab string
  | Search_done

section \<open>The browser state\<close>

record browser =
  storage :: "string \<rightharpoonup> string"
  navs :: "nav list"
  requests :: "request list"
  now :: nat
  timers :: "(nat \<times> timer_cb) list"

definition set_item :: "string \<Rightarrow> string \<Rightarrow> 'z browser_scheme \<Rightarrow> 'z browser_scheme" where
  "set_item k v s = s\<lparr>storage := (storage s)(k \<mapsto> v)\<rparr>"

definition remove_item :: "string \<Rightarrow> 'z browser_scheme \<Rightarrow> 'z browser_scheme" where
  "remove_item k s = s\<lparr>storage := (storage s)(k := None)\<rparr>"

text \<open>\<open>localStorage.getItem(k)\<close> as a value: the string, or \<open>null\<close>.\<close>

definition get_item :: "string \<Rightarrow> 'z browser_scheme \<Rightarrow> jsval" where
  "get_item k s = (case storage s k of None \<Rightarrow> JNull | Some v \<Rightarrow> JStr v)"

definition navigate :: "nav \<Rightarrow> 'z browser_scheme \<Rightarrow> 'z browser_scheme" where
  "navigate n s = s\<lparr>navs := navs s @ [n]\<rparr>"

definition send :: "request \<Rightarrow> 'z browser_scheme \<Rightarrow> 'z browser_scheme" where
  "send r s = s\<lparr>requests := requests s @ [r]\<rparr>"

definition set_timeout :: "timer_cb \<Rightarrow> nat \<Rightarrow> 'z browser_scheme \<Rightarrow> 'z browser_scheme" where
  "set_timeout cb delay s = s\<lparr>timers := timers s @ [(now s + delay, cb)]\<rparr>"

lemmas browser_ops [page_simps] =
  set_item_def remove_item_def get_item_def navigate_def send_def set_timeout_def

section \<open>Choosing the next timer\<close>

text \<open>
  The event loop runs the pending callback with the earliest due time; among
  callbacks due at the same time, the one registered first (HTML's timer
  ordering).
\<close>

definition next_timer :: "(nat \<times> timer_cb) list \<Rightarrow> (nat \<times> timer_cb) option" where
  "next_timer ts = (case ts of [] \<Rightarrow> None | t # r \<Rightarrow> find (\<lambda>u. fst u = foldl min (fst t) (map fst r)) ts)"

lemma foldl_min_le_start: "foldl min (a::nat) xs \<le> a"
proof (induction xs arbitrary: a)
  case Nil
  then show ?case by simp
next
  case (Cons y xs)
  have "foldl min (min a y) xs \<le> min a y" by (rule Cons.IH)
  then show ?case by simp
qed

lemma foldl_min_le: "x \<in> set xs \<Longrightarrow> foldl min (a::nat) xs \<le> x"
proof (induction xs arbitrary: a)
  case Nil
  then show ?case by simp
next
  case (Cons y xs)
  show ?case
  proof (cases "x = y")
    case True
    have "foldl min (min a y) xs \<le> min a y" by (rule foldl_min_le_start)
    with True show ?thesis by simp
  next
    case False
    with Cons show ?thesis by simp
  qed
qed

lemma foldl_min_in: "foldl min (a::nat) xs \<in> insert a (set xs)"
  by (induction xs arbitrary: a) (auto simp: min_def)

lemma next_timer_Some:
  assumes "next_timer ts = Some t"
  shows "t \<in> set ts" and "\<forall>u \<in> set ts. fst t \<le> fst u"
proof -
  obtain t0 r where ts: "ts = t0 # r" and f: "find (\<lambda>u. fst u = foldl min (fst t0) (map fst r)) ts = Some t"
    using assms by (auto simp: next_timer_def split: list.splits)
  from f show "t \<in> set ts" by (auto simp: find_Some_iff)
  from f have "fst t = foldl min (fst t0) (map fst r)" by (auto simp: find_Some_iff)
  then show "\<forall>u \<in> set ts. fst t \<le> fst u"
    using foldl_min_le[of _ "map fst r" "fst t0"] foldl_min_le_start[of "fst t0" "map fst r"]
    by (auto simp: ts)
qed

lemma next_timer_None_iff [simp]: "next_timer ts = None \<longleftrightarrow> ts = []"
proof
  assume none: "next_timer ts = None"
  show "ts = []"
  proof (rule ccontr)
    assume "ts \<noteq> []"
    then obtain t0 r where ts: "ts = t0 # r" by (cases ts) auto
    have "foldl min (fst t0) (map fst r) \<in> fst ` set ts"
      using foldl_min_in[of "fst t0" "map fst r"] by (auto simp: ts)
    then obtain u where "u \<in> set ts" and "fst u = foldl min (fst t0) (map fst r)" by (auto simp: image_iff)
    then have "find (\<lambda>u. fst u = foldl min (fst t0) (map fst r)) ts \<noteq> None"
      using \<open>u \<in> set ts\<close> by (simp only: find_None_iff) blast
    moreover from none have "find (\<lambda>u. fst u = foldl min (fst t0) (map fst r)) ts = None"
      by (simp add: next_timer_def ts del: find.simps)
    ultimately show False by contradiction
  qed
qed (simp add: next_timer_def)

text \<open>Taking the next timer off the queue and advancing the clock to its due
  time (never backwards: a timer is due at or after the time it was set).\<close>

definition pop_timer :: "'z browser_scheme \<Rightarrow> (timer_cb \<times> 'z browser_scheme) option" where
  "pop_timer s = (case next_timer (timers s) of
      None \<Rightarrow> None
    | Some (d, cb) \<Rightarrow> Some (cb, s\<lparr>now := max (now s) d, timers := remove1 (d, cb) (timers s)\<rparr>))"

section \<open>The message banner\<close>

record banner_page = browser +
  msg_text :: string
  msg_class :: string
  msg_hidden :: bool

text \<open>\<open>showMessage(text, type)\<close> (\<open>script.js\<close> lines 47--56, \<open>dashboard.js\<close>
  lines 72--81): set text and class, unhide, and schedule \<open>hideMessage\<close>
  after 5000 ms. The timer is never cancelled.\<close>

definition show_message :: "string \<Rightarrow> string \<Rightarrow> 'z banner_page_scheme \<Rightarrow> 'z banner_page_scheme" where
  "show_message txt typ s =
     set_timeout Hide_message 5000 (s\<lparr>msg_text := txt, msg_class := ''message '' @ typ, msg_hidden := False\<rparr>)"

definition hide_message :: "'z banner_page_scheme \<Rightarrow> 'z banner_page_scheme" where
  "hide_message s = s\<lparr>msg_hidden := True\<rparr>"

lemmas banner_ops [page_simps] = show_message_def hide_message_def

end
