(* ===== verification/Requests.thy ===== *)
theory Requests
  imports Browser
begin

text \<open>
  The three request helpers, one per script. They share a shape (attach a bearer
  token, send JSON, turn a non-2xx status into a thrown \<open>Error\<close>) and differ
  in where the token comes from, which error field they read, and whether a 401
  is handled:
  \<^item> \<open>auth_make_request\<close>: \<open>makeRequest\<close> of \<open>script.js\<close>; token from
    \<open>localStorage['access_token']\<close>, error text from \<open>detail\<close>, no 401 case;
  \<^item> \<open>dash_make_request\<close>: \<open>makeRequest\<close> of \<open>dashboard.js\<close>; as above,
    but a 401 removes the token, navigates to \<open>index.html\<close> and returns
    \<open>undefined\<close>;
  \<^item> \<open>api_call\<close>: \<open>ProfileManager.apiCall\<close> of \<open>app.js\<close>; token from the
    manager's field, error text from \<open>error\<close>, no 401 case.
  Each returns the value the returned promise settles with (\<open>Inl\<close> the
  rejection) and the browser state after the call.
\<close>

section \<open>Shared pieces\<close>

definition auth_base_url :: string where
  "auth_base_url = ''http://localhost:8000''"

definition profile_base_url :: string where
  "profile_base_url = ''http://localhost:5000/api''"

text \<open>\<open>...(token && {'Authorization': `Bearer ${token}`})\<close>: a header only
  when the stored token is a non-empty string.\<close>

definition bearer_if_truthy :: "jsval \<Rightarrow> string option" where
  "bearer_if_truthy tok = (if truthy tok then Some (''Bearer '' @ to_str tok) else None)"

text \<open>
  The non-2xx branch common to both \<open>makeRequest\<close>s and \<open>apiCall\<close>:
  \<open>errorData = await response.json().catch(() => ({[fld]: fallback}))\<close>, then
  \<open>throw new Error(errorData[fld] || `HTTP ${response.status}`)\<close>. Reading
  the field of a \<open>null\<close> body throws a TypeError instead.
\<close>

definition http_error :: "string \<Rightarrow> string \<Rightarrow> nat \<Rightarrow> string + jsval \<Rightarrow> js_error" where
  "http_error fld fallback st b =
     (let err_data = (case b of Inl _ \<Rightarrow> JObj [(fld, JStr fallback)] | Inr v \<Rightarrow> v)
      in case get_prop err_data fld of
           Inl e \<Rightarrow> e
         | Inr d \<Rightarrow> Error (to_str (js_or d (JStr (''HTTP '' @ nat_str st)))))"

text \<open>The settled value of a request once sent: the parsed body on a 2xx
  status, the HTTP error otherwise, \<open>Failed to fetch\<close> when the transport
  fails.\<close>

definition settle :: "string \<Rightarrow> string \<Rightarrow> fetch_outcome \<Rightarrow> js_error + jsval" where
  "settle fld fallback out =
     (case out of
        Net_failure \<Rightarrow> Inl fetch_error
      | Response st b \<Rightarrow> if http_ok st then json_body b else Inl (http_error fld fallback st b))"

section \<open>\<open>makeRequest\<close> of \<open>script.js\<close>\<close>

definition auth_make_request ::
  "string \<Rightarrow> string \<Rightarrow> jsval option \<Rightarrow> fetch_outcome \<Rightarrow> 'z browser_scheme \<Rightarrow> (js_error + jsval) \<times> 'z browser_scheme" where
  "auth_make_request url meth body out s =
     (let tok = get_item ''access_token'' s;
          s1 = send \<lparr>req_method = meth, req_url = auth_base_url @ url,
                     req_auth = bearer_if_truthy tok, req_body = body\<rparr> s
      in (settle ''detail'' ''Network error'' out, s1))"

section \<open>\<open>makeRequest\<close> of \<open>dashboard.js\<close>\<close>

definition dash_make_request ::
  "string \<Rightarrow> string \<Rightarrow> jsval option \<Rightarrow> fetch_outcome \<Rightarrow> 'z browser_scheme \<Rightarrow> (js_error + jsval) \<times> 'z browser_scheme" where
  "dash_make_request url meth body out s =
     (let tok = get_item ''access_token'' s;
          s1 = send \<lparr>req_method = meth, req_url = auth_base_url @ url,
                     req_auth = bearer_if_truthy tok, req_body = body\<rparr> s
      in case out of
           Response st b \<Rightarrow>
             if \<not> http_ok st \<and> st = 401
             then (Inr JUndef, navigate (Goto ''index.html'') (remove_item ''access_token'' s1))
             else (settle ''detail'' ''Network error'' out, s1)
         | Net_failure \<Rightarrow> (settle ''detail'' ''Network error'' out, s1))"

section \<open>\<open>ProfileManager.apiCall\<close> of \<open>app.js\<close>\<close>

text \<open>The header is always \<open>Bearer ${this.token}\<close>, whatever the token is;
  the body is sent when \<open>data\<close> is truthy and the method is not GET.\<close>

definition api_call ::
  "jsval \<Rightarrow> string \<Rightarrow> string \<Rightarrow> jsval \<Rightarrow> fetch_outcome \<Rightarrow> 'z browser_scheme \<Rightarrow> (js_error + jsval) \<times> 'z browser_scheme" where
  "api_call tok endpoint meth data out s =
     (let s1 = send \<lparr>req_method = meth, req_url = profile_base_url @ endpoint,
                     req_auth = Some (''Bearer '' @ to_str tok),
                     req_body = (if truthy data \<and> meth \<noteq> ''GET'' then Some data else None)\<rparr> s
      in (settle ''error'' ''Unknown error'' out, s1))"

lemmas request_defs [page_simps] =
  auth_make_request_def dash_make_request_def api_call_def settle_def http_error_def
  bearer_if_truthy_def json_body_def http_ok_def fetch_error_def

section \<open>Properties of the request helpers\<close>

text \<open>Every helper sends exactly one request, whatever the outcome.\<close>

lemma requests_auth_make_request [simp]:
  "requests (snd (auth_make_request url meth body out s)) =
     requests s @ [\<lparr>req_method = meth, req_url = auth_base_url @ url,
                    req_auth = bearer_if_truthy (get_item ''access_token'' s), req_body = body\<rparr>]"
  by (simp add: auth_make_request_def Let_def send_def)

lemma requests_dash_make_request [simp]:
  "requests (snd (dash_make_request url meth body out s)) =
     requests s @ [\<lparr>req_method = meth, req_url = auth_base_url @ url,
                    req_auth = bearer_if_truthy (get_item ''access_token'' s), req_body = body\<rparr>]"
  by (simp add: dash_make_request_def Let_def send_def navigate_def remove_item_def
      split: fetch_outcome.split)

lemma requests_api_call [simp]:
  "requests (snd (api_call tok endpoint meth data out s)) =
     requests s @ [\<lparr>req_method = meth, req_url = profile_base_url @ endpoint,
                    req_auth = Some (''Bearer '' @ to_str tok),
                    req_body = (if truthy data \<and> meth \<noteq> ''GET'' then Some data else None)\<rparr>]"
  by (simp add: api_call_def Let_def send_def)

text \<open>Apart from the request log, only the dashboard helper's 401 branch
  changes the browser state.\<close>

lemma auth_make_request_state:
  "snd (auth_make_request url meth body out s) = s\<lparr>requests := requests (snd (auth_make_request url meth body out s))\<rparr>"
  by (simp add: auth_make_request_def Let_def send_def)

lemma api_call_state:
  "snd (api_call tok endpoint meth data out s) = s\<lparr>requests := requests (snd (api_call tok endpoint meth data out s))\<rparr>"
  by (simp add: api_call_def Let_def send_def)

lemma bearer_if_truthy_item:
  "bearer_if_truthy (get_item k s) =
     (case storage s k of None \<Rightarrow> None | Some t \<Rightarrow> if t = [] then None else Some (''Bearer '' @ t))"
  by (simp add: bearer_if_truthy_def get_item_def split: option.split)

lemma settle_ok [simp]: "http_ok st \<Longrightarrow> settle fld fb (Response st (Inr v)) = Inr v"
  by (simp add: settle_def json_body_def)

lemma settle_not_ok [simp]: "\<not> http_ok st \<Longrightarrow> settle fld fb (Response st b) = Inl (http_error fld fb st b)"
  by (simp add: settle_def)

lemma http_ok_401 [simp]: "\<not> http_ok 401"
  by (simp add: http_ok_def)

text \<open>The message of the thrown error on a non-2xx status, by the shape of the
  body.\<close>

lemma http_error_not_json: "fb \<noteq> [] \<Longrightarrow> http_error fld fb st (Inl txt) = Error fb"
  by (simp add: http_error_def obj_get_def)

lemma http_error_field:
  "http_error fld fb st (Inr (JObj ps)) =
     Error (if truthy (obj_get ps fld) then to_str (obj_get ps fld) else ''HTTP '' @ nat_str st)"
  by (simp add: http_error_def)

lemma http_error_null: "\<exists>m. http_error fld fb st (Inr JNull) = TypeError m"
  by (simp add: http_error_def)

section \<open>401 handling\<close>

text \<open>C1. The dashboard helper, given a 401 from any endpoint, resolves to
  \<open>undefined\<close>, removes the stored token and navigates to the login page,
  after sending the one request.\<close>

theorem dash_make_request_401:
  "let (r, s') = dash_make_request url meth body (Response 401 b) s
   in r = Inr JUndef \<and> storage s' ''access_token'' = None
      \<and> navs s' = navs s @ [Goto ''index.html''] \<and> length (requests s') = Suc (length (requests s))"
  by (simp add: dash_make_request_def Let_def send_def navigate_def remove_item_def)

text \<open>C18. The login page's helper handles a 401 like any other error status:
  it rejects, and the stored token and the location are left as they were.\<close>

theorem auth_make_request_401_keeps_token:
  "let (r, s') = auth_make_request url meth body (Response 401 b) s
   in (\<exists>e. r = Inl e) \<and> storage s' = storage s \<and> navs s' = navs s"
  by (simp add: auth_make_request_def Let_def send_def)

text \<open>C19. The profile manager's helper also rejects on a 401 and neither clears
  a token nor navigates.\<close>

theorem api_call_401_keeps_token:
  "let (r, s') = api_call tok endpoint meth data (Response 401 b) s
   in (\<exists>e. r = Inl e) \<and> storage s' = storage s \<and> navs s' = navs s"
  by (simp add: api_call_def Let_def send_def)

end
