(* ===== verification/Profile_Manager.thy ===== *)
theory Profile_Manager
  imports Requests
begin

text \<open>
  The \<open>ProfileManager\<close> class of \<open>src/profile_setup/frontend/app.js\<close>
  and the module-level validation handlers of the same file. The instance
  fields \<open>token\<close> and \<open>currentProfile\<close> are fields of \<open>profile_page\<close>,
  which extends the browser state with the page's DOM: form control values and
  text contents by element id, the selected work categories, the score circle's
  stroke offset (as its coefficient of \<open>\<pi>\<close>: every term of the code's
  expression is a multiple of \<open>Math.PI\<close>, so the coefficient is exact and
  executable), the loading modal, toasts, \<open>alert\<close>s and downloads.
  Every element id the code looks up is assumed present (the HTML is not part
  of the repository).
\<close>

section \<open>State\<close>

record profile_page = browser +
  pm_token :: jsval
  current_profile :: jsval
  listeners_installed :: bool
  inputs :: "string \<rightharpoonup> string"
  category_options :: "string list"
  selected_categories :: "string list"
  texts :: "string \<rightharpoonup> string"
  score_offset :: rat
  last_updated :: "jsval option"
  loading_shown :: bool
  toasts :: "(string \<times> string) list"
  alerts :: "string list"
  downloads :: "(string \<times> jsval) list"
  invalid_fields :: "string set"

definition input_value :: "string \<Rightarrow> 'z profile_page_scheme \<Rightarrow> string" where
  "input_value el s = (case inputs s el of None \<Rightarrow> [] | Some v \<Rightarrow> v)"

definition set_input :: "string \<Rightarrow> string \<Rightarrow> 'z profile_page_scheme \<Rightarrow> 'z profile_page_scheme" where
  "set_input el v s = s\<lparr>inputs := (inputs s)(el \<mapsto> v)\<rparr>"

definition set_text :: "string \<Rightarrow> string \<Rightarrow> 'z profile_page_scheme \<Rightarrow> 'z profile_page_scheme" where
  "set_text el v s = s\<lparr>texts := (texts s)(el \<mapsto> v)\<rparr>"

text \<open>A property of a value known to be truthy (never \<open>null\<close> or
  \<open>undefined\<close>, so the read does not throw).\<close>

definition read_prop :: "jsval \<Rightarrow> string \<Rightarrow> jsval" where
  "read_prop v k = (case get_prop v k of Inl _ \<Rightarrow> JUndef | Inr x \<Rightarrow> x)"

lemma get_prop_truthy: "truthy v \<Longrightarrow> get_prop v k = Inr (read_prop v k)"
  by (cases v) (auto simp: read_prop_def)

section \<open>Loading modal and toasts\<close>

text \<open>
  \<open>showLoading(show)\<close> (lines 322--329) builds a fresh
  \<open>bootstrap.Modal\<close> on each call. Bootstrap 5's \<open>hide()\<close> returns at
  once on an instance that was never shown, so \<open>showLoading(false)\<close> leaves
  the modal opened by \<open>showLoading(true)\<close> on screen.
\<close>

definition show_loading :: "bool \<Rightarrow> 'z profile_page_scheme \<Rightarrow> 'z profile_page_scheme" where
  "show_loading b s = (if b then s\<lparr>loading_shown := True\<rparr> else s)"

text \<open>\<open>showAlert(message, type)\<close> (lines 331--349): the toast shows the
  message under the title Error or Success.\<close>

definition show_alert :: "string \<Rightarrow> string \<Rightarrow> 'z profile_page_scheme \<Rightarrow> 'z profile_page_scheme" where
  "show_alert msg typ s =
     s\<lparr>toasts := toasts s @ [(if typ = ''error'' then ''Error'' else ''Success'', msg)]\<rparr>"

section \<open>Success rate\<close>

text \<open>\<open>Math.round\<close>: the nearest integer, halves rounded up.\<close>

definition js_round :: "rat \<Rightarrow> int" where
  "js_round x = \<lfloor>x + 1 / 2\<rfloor>"

text \<open>\<open>parseInt(v) || 0\<close>: \<open>parseInt\<close> yields an integer or \<open>NaN\<close>
  (lemma \<open>parse_int_cases\<close> below), and \<open>NaN || 0\<close> is \<open>0\<close>.\<close>

definition int_or_zero :: "string \<Rightarrow> rat" where
  "int_or_zero v = (case parse_int v of Num r \<Rightarrow> r | _ \<Rightarrow> 0)"

text \<open>The value \<open>calculateSuccessRate\<close> (lines 201--211) computes from the
  two input strings.\<close>

definition success_rate :: "string \<Rightarrow> string \<Rightarrow> int" where
  "success_rate w a =
     (let wins = int_or_zero w; applications = int_or_zero a
      in if applications > 0 then js_round ((wins / applications) * 100) else 0)"

definition calculate_success_rate :: "'z profile_page_scheme \<Rightarrow> 'z profile_page_scheme" where
  "calculate_success_rate s =
     set_text ''successRate''
       (int_str (success_rate (input_value ''previousTenderWins'' s) (input_value ''previousTenderApplications'' s)) @ ''%'') s"

section \<open>Score display\<close>

text \<open>\<open>2 * Math.PI * 50 - (score / 100) * (2 * Math.PI * 50)\<close> for a finite
  score, each term written as its coefficient of \<open>\<pi>\<close>; \<open>offset_length\<close>
  is the length it denotes.\<close>

definition circumference :: rat where
  "circumference = 2 * 50"

definition circle_offset :: "rat \<Rightarrow> rat" where
  "circle_offset r = circumference - (r / 100) * circumference"

definition offset_length :: "rat \<Rightarrow> real" where
  "offset_length c = of_rat c * pi"

definition score_description :: "jnum \<Rightarrow> string" where
  "score_description n =
     (if jnum_ge n 80 then ''Excellent! You have a high readiness score''
      else if jnum_ge n 60 then ''Good! Your readiness score is above average''
      else if jnum_ge n 40 then ''Fair. Consider completing more profile sections''
      else if jnum_gt n 0 then ''Low score. Please complete your profile''
      else ''Complete your profile to improve your score'')"

text \<open>
  \<open>updateUI\<close> (lines 213--253). A non-finite score gives \<open>NaN\<close> or an
  infinite offset, which the style property rejects, leaving the previous
  offset. The locale formatting of \<open>updated_at\<close> is not modelled: the field
  \<open>last_updated\<close> records the value it is formatted from.
\<close>

definition update_ui :: "'z profile_page_scheme \<Rightarrow> 'z profile_page_scheme" where
  "update_ui s =
     (let p = current_profile s in
      if \<not> truthy p then s
      else
        let s1 = set_text ''companyName'' (to_str (js_or (read_prop p ''company_name'') (JStr ''-''))) s;
            s2 = set_text ''companyReg'' (to_str (js_or (read_prop p ''company_registration_number'') (JStr ''-''))) s1;
            s3 = set_text ''phoneNumber'' (to_str (js_or (read_prop p ''phone_number'') (JStr ''-''))) s2;
            completion = js_or (read_prop p ''profile_completion_percentage'') (JNumber (Num 0));
            s4 = set_text ''completionBadge'' (to_str completion @ ''%'') s3;
            s5 = (if truthy (read_prop p ''updated_at'') then s4\<lparr>last_updated := Some (read_prop p ''updated_at'')\<rparr> else s4);
            score = js_or (read_prop p ''readiness_score'') (JNumber (Num 0));
            s6 = set_text ''scoreValue'' (to_str score) s5;
            s7 = (case to_number score of Num r \<Rightarrow> s6\<lparr>score_offset := circle_offset r\<rparr> | _ \<Rightarrow> s6)
        in set_text ''scoreDescription'' (score_description (to_number score)) s7)"

lemmas profile_view_defs [page_simps] =
  input_value_def set_input_def set_text_def show_loading_def show_alert_def

section \<open>Object helpers of the handlers\<close>

text \<open>The own enumerable properties that \<open>{...v}\<close> copies: an object's
  properties, the indexed characters of a string, the indexed elements of an
  array, nothing for the other primitives.\<close>

fun own_props :: "jsval \<Rightarrow> jsval obj" where
  "own_props (JObj ps) = ps"
| "own_props (JStr cs) = zip (map nat_str [0..<length cs]) (map (\<lambda>c. JStr [c]) cs)"
| "own_props (JArr xs) = zip (map nat_str [0..<length xs]) xs"
| "own_props v = []"

text \<open>\<open>v.k = x\<close> in the class body (strict mode): a TypeError on
  \<open>null\<close>, \<open>undefined\<close> and the other primitives. A named property stored
  on an array is not represented (the array is returned unchanged).\<close>

fun set_prop :: "jsval \<Rightarrow> string \<Rightarrow> jsval \<Rightarrow> js_error + jsval" where
  "set_prop JUndef k x = Inl (TypeError (''Cannot set properties of undefined (setting '' @ [CHR 0x27] @ k @ [CHR 0x27] @ '')''))"
| "set_prop JNull k x = Inl (TypeError (''Cannot set properties of null (setting '' @ [CHR 0x27] @ k @ [CHR 0x27] @ '')''))"
| "set_prop (JObj ps) k x = Inr (JObj (AList.update k x ps))"
| "set_prop (JArr xs) k x = Inr (JArr xs)"
| "set_prop v k x = Inl (TypeError (''Cannot create property '' @ [CHR 0x27] @ k @ [CHR 0x27] @ '' on '' @ to_str v))"

text \<open>\<open>String.prototype.toUpperCase\<close> on ASCII letters (the handlers apply it
  to their own form-type literals).\<close>

definition ascii_upper :: "string \<Rightarrow> string" where
  "ascii_upper cs = map (\<lambda>c. let n = (of_char c :: nat) in if 97 \<le> n \<and> n \<le> 122 then char_of (n - 32) else c) cs"

section \<open>Populating the forms\<close>

text \<open>The profile keys and the ids of the controls \<open>populateForms\<close>
  (lines 65--134) copies them to, in the order of the code.\<close>

definition cidb_fields :: "(string \<times> string) list" where
  "cidb_fields = [(''cidb_grade'', ''cidbGrade''), (''cidb_registration_number'', ''cidbRegNumber''),
                  (''cidb_expiry_date'', ''cidbExpiryDate'')]"

definition later_fields :: "(string \<times> string) list" where
  "later_fields =
     [(''bee_level'', ''beeLevel''), (''bee_certificate_number'', ''beeCertNumber''),
      (''bee_expiry_date'', ''beeExpiryDate''), (''bee_ownership_percentage'', ''beeOwnership''),
      (''bee_management_control_percentage'', ''beeManagement''),
      (''bee_skills_development_percentage'', ''beeSkills''),
      (''bee_enterprise_development_percentage'', ''beeEnterprise''),
      (''bee_socio_economic_development_percentage'', ''beeSocio''),
      (''years_in_business'', ''yearsInBusiness''), (''annual_turnover'', ''annualTurnover''),
      (''number_of_employees'', ''numberOfEmployees''),
      (''previous_tender_wins'', ''previousTenderWins''),
      (''previous_tender_applications'', ''previousTenderApplications'')]"

text \<open>\<open>if (p.key) { el.value = p.key; }\<close>: a falsy value (missing,
  \<open>null\<close>, \<open>0\<close>, empty string) leaves the control as it was.\<close>

definition fill_field :: "jsval \<Rightarrow> string \<times> string \<Rightarrow> 'z profile_page_scheme \<Rightarrow> 'z profile_page_scheme" where
  "fill_field p f s =
     (let v = read_prop p (fst f) in if truthy v then set_input (snd f) (to_str v) s else s)"

definition fill_categories :: "jsval \<Rightarrow> 'z profile_page_scheme \<Rightarrow> 'z profile_page_scheme" where
  "fill_categories p s =
     (let v = read_prop p ''cidb_work_categories''
      in if truthy v then
           (let cats = (case v of JArr xs \<Rightarrow> xs | _ \<Rightarrow> [])
            in s\<lparr>selected_categories := filter (\<lambda>opt. JStr opt \<in> set cats) (category_options s)\<rparr>)
         else s)"

definition populate_forms :: "'z profile_page_scheme \<Rightarrow> 'z profile_page_scheme" where
  "populate_forms s =
     (let p = current_profile s in
      if \<not> truthy p then s
      else calculate_success_rate
             (fold (fill_field p) later_fields (fill_categories p (fold (fill_field p) cidb_fields s))))"

section \<open>Loading the profile\<close>

text \<open>\<open>loadProfile\<close> (lines 48--63): GET \<open>/profiles\<close>; a truthy
  \<open>response.profile\<close> becomes the current profile and fills the forms; any
  rejection, including a read of \<open>profile\<close> on a \<open>null\<close> body, becomes a
  toast.\<close>

definition load_profile :: "fetch_outcome \<Rightarrow> 'z profile_page_scheme \<Rightarrow> 'z profile_page_scheme" where
  "load_profile out s =
     (let s1 = show_loading True s;
          (r, s2) = api_call (pm_token s1) ''/profiles'' ''GET'' JNull out s1;
          err = (\<lambda>e. show_alert (''Error loading profile: '' @ err_message e) ''error'' s2);
          s3 = (case r of
                  Inl e \<Rightarrow> err e
                | Inr resp \<Rightarrow>
                    (case get_prop resp ''profile'' of
                       Inl e \<Rightarrow> err e
                     | Inr p \<Rightarrow> if truthy p then populate_forms (s2\<lparr>current_profile := p\<rparr>) else s2))
      in show_loading False s3)"

section \<open>Submitting a form section\<close>

text \<open>The loop over \<open>formData.entries()\<close> (lines 146--154): work
  categories accumulate into an array, other non-empty values overwrite.\<close>

definition collect_entry :: "jsval obj \<Rightarrow> string \<times> string \<Rightarrow> jsval obj" where
  "collect_entry d e =
     (let (k, v) = e in
      if k = ''cidb_work_categories'' then
        AList.update k (JArr ((case obj_get d k of JArr xs \<Rightarrow> xs | _ \<Rightarrow> []) @ [JStr v])) d
      else if v \<noteq> [] then AList.update k (JStr v) d
      else d)"

definition numeric_fields :: "string list" where
  "numeric_fields =
     [''cidb_grade'', ''bee_level'', ''years_in_business'', ''annual_turnover'',
      ''number_of_employees'', ''previous_tender_wins'', ''previous_tender_applications'',
      ''bee_ownership_percentage'', ''bee_management_control_percentage'',
      ''bee_skills_development_percentage'', ''bee_enterprise_development_percentage'',
      ''bee_socio_economic_development_percentage'']"

text \<open>\<open>parseFloat(x) || 0\<close>.\<close>

definition num_or_zero :: "jnum \<Rightarrow> jnum" where
  "num_or_zero n = (if truthy (JNumber n) then n else Num 0)"

definition coerce_field :: "jsval obj \<Rightarrow> string \<Rightarrow> jsval obj" where
  "coerce_field d f =
     (if obj_get d f \<noteq> JUndef then AList.update f (JNumber (num_or_zero (parse_float (to_str (obj_get d f))))) d else d)"

text \<open>The object \<open>data\<close> that \<open>handleFormSubmit\<close> sends (lines 142--176),
  from the form's entries and the values of the selected work-category
  options.\<close>

definition form_data :: "string \<Rightarrow> (string \<times> string) list \<Rightarrow> string list \<Rightarrow> jsval obj" where
  "form_data ft entries sel =
     (let d1 = foldl collect_entry [] entries;
          d2 = (if ft = ''cidb''
                then AList.update ''cidb_work_categories'' (JArr (map JStr sel)) d1
                else d1)
      in foldl coerce_field d2 numeric_fields)"

text \<open>
  \<open>handleFormSubmit(event, formType)\<close> (lines 136--199). After the PUT
  resolves, the current profile becomes \<open>{...currentProfile, ...data}\<close>
  \<^emph>\<open>before\<close> \<open>response.profile\<close> is read, so a \<open>null\<close> body still
  leaves the merged profile in place when the read throws.
\<close>

definition handle_form_submit ::
  "string \<Rightarrow> (string \<times> string) list \<Rightarrow> fetch_outcome \<Rightarrow> 'z profile_page_scheme \<Rightarrow> 'z profile_page_scheme" where
  "handle_form_submit ft entries out s =
     (let s1 = show_loading True s;
          d = form_data ft entries (selected_categories s1);
          (r, s2) = api_call (pm_token s1) ''/profiles'' ''PUT'' (JObj d) out s1;
          err = (\<lambda>e t. show_alert (''Error saving profile: '' @ err_message e) ''error'' t);
          s3 = (case r of
                  Inl e \<Rightarrow> err e s2
                | Inr resp \<Rightarrow>
                    (let merged = JObj (spread (own_props (current_profile s2)) d);
                         t1 = s2\<lparr>current_profile := merged\<rparr>
                     in case get_prop resp ''profile'' of
                          Inl e \<Rightarrow> err e t1
                        | Inr sp \<Rightarrow>
                            (let cp = (if truthy sp then
                                         JObj (AList.update ''last_score_calculation'' (read_prop sp ''last_score_calculation'')
                                               (AList.update ''profile_completion_percentage'' (read_prop sp ''profile_completion_percentage'')
                                                 (AList.update ''readiness_score'' (read_prop sp ''readiness_score'')
                                                   (spread (own_props (current_profile s2)) d))))
                                       else merged)
                             in show_alert (ascii_upper ft @ '' information saved successfully!'') ''success''
                                  (update_ui (t1\<lparr>current_profile := cp\<rparr>)))))
      in show_loading False s3)"

section \<open>Initialisation, login and logout\<close>

text \<open>\<open>setupEventListeners\<close> (lines 31--46) attaches the four submit handlers,
  the two success-rate input handlers and the tab handlers; the model records
  that it ran.\<close>

definition setup_event_listeners :: "'z profile_page_scheme \<Rightarrow> 'z profile_page_scheme" where
  "setup_event_listeners s = s\<lparr>listeners_installed := True\<rparr>"

text \<open>
  \<open>login(email, password)\<close> (lines 363--387): a POST without
  Authorization header; on a 2xx answer \<open>this.token = data.token\<close> is stored
  under \<open>authToken\<close> (as the string \<open>"undefined"\<close> when the field is
  missing), the profile is loaded from the second outcome and the UI updated;
  otherwise an \<open>alert\<close> shows \<open>Login failed: \<close> and the server's \<open>error\<close>
  field or the rejection's message. \<open>setupEventListeners\<close> is not called.
\<close>

definition pm_login ::
  "string \<Rightarrow> string \<Rightarrow> fetch_outcome \<Rightarrow> fetch_outcome \<Rightarrow> 'z profile_page_scheme \<Rightarrow> 'z profile_page_scheme" where
  "pm_login email password out1 out2 s =
     (let s1 = send \<lparr>req_method = ''POST'', req_url = profile_base_url @ ''/auth/login'', req_auth = None,
                     req_body = Some (JObj [(''email'', JStr email), (''password'', JStr password)])\<rparr> s;
          fail = (\<lambda>m. s1\<lparr>alerts := alerts s1 @ [''Login failed: '' @ m]\<rparr>)
      in case out1 of
           Net_failure \<Rightarrow> fail (err_message fetch_error)
         | Response st b \<Rightarrow>
             if http_ok st then
               (case sbind (json_body b) (\<lambda>data. get_prop data ''token'') of
                  Inl e \<Rightarrow> fail (err_message e)
                | Inr tok \<Rightarrow> update_ui (load_profile out2 (set_item ''authToken'' (to_str tok) (s1\<lparr>pm_token := tok\<rparr>))))
             else
               (case sbind (json_body b) (\<lambda>ed. get_prop ed ''error'') of
                  Inl e \<Rightarrow> fail (err_message e)
                | Inr m \<Rightarrow> fail (to_str m)))"

text \<open>\<open>showLoginModal()\<close> (lines 351--361): the two \<open>prompt\<close> answers
  (\<open>None\<close> when cancelled); both must be non-empty.\<close>

definition show_login_modal ::
  "string option \<Rightarrow> string option \<Rightarrow> fetch_outcome \<Rightarrow> fetch_outcome \<Rightarrow> 'z profile_page_scheme \<Rightarrow> 'z profile_page_scheme" where
  "show_login_modal em pw out1 out2 s =
     (case (em, pw) of
        (Some e, Some p) \<Rightarrow>
          if e \<noteq> [] \<and> p \<noteq> [] then pm_login e p out1 out2 s
          else s\<lparr>alerts := alerts s @ [''Login required to access the profile system'']\<rparr>
      | _ \<Rightarrow> s\<lparr>alerts := alerts s @ [''Login required to access the profile system'']\<rparr>)"

text \<open>\<open>init()\<close> (lines 14--29): without a token, the login prompts and an early
  return; with one, load the profile, attach the listeners, update the UI. The
  first outcome answers the first request the path sends, the second the
  profile load after a login.\<close>

definition pm_init ::
  "string option \<Rightarrow> string option \<Rightarrow> fetch_outcome \<Rightarrow> fetch_outcome \<Rightarrow> 'z profile_page_scheme \<Rightarrow> 'z profile_page_scheme" where
  "pm_init em pw out1 out2 s =
     (if \<not> truthy (pm_token s) then show_login_modal em pw out1 out2 s
      else update_ui (setup_event_listeners (load_profile out1 s)))"

text \<open>\<open>logout()\<close> (lines 389--394).\<close>

definition pm_logout :: "'z profile_page_scheme \<Rightarrow> 'z profile_page_scheme" where
  "pm_logout s = navigate Reload (remove_item ''authToken'' (s\<lparr>pm_token := JNull\<rparr>))\<lparr>current_profile := JNull\<rparr>"

section \<open>Recalculating the score\<close>

text \<open>The three assignments \<open>this.currentProfile.f = response.f\<close> of
  lines 261--263, in order: the right side is read first, then the
  assignment throws if the profile is \<open>null\<close>.\<close>

definition assign_scores :: "jsval \<Rightarrow> jsval \<Rightarrow> js_error + jsval" where
  "assign_scores cp resp =
     sbind (get_prop resp ''readiness_score'') (\<lambda>v1. sbind (set_prop cp ''readiness_score'' v1) (\<lambda>cp1.
     sbind (get_prop resp ''profile_completion_percentage'') (\<lambda>v2. sbind (set_prop cp1 ''profile_completion_percentage'' v2) (\<lambda>cp2.
     sbind (get_prop resp ''last_score_calculation'') (\<lambda>v3. set_prop cp2 ''last_score_calculation'' v3)))))"

text \<open>\<open>recalculateScore()\<close> (lines 255--274).\<close>

definition recalculate_score :: "fetch_outcome \<Rightarrow> 'z profile_page_scheme \<Rightarrow> 'z profile_page_scheme" where
  "recalculate_score out s =
     (let s1 = show_loading True s;
          (r, s2) = api_call (pm_token s1) ''/profiles/score'' ''POST'' JNull out s1;
          err = (\<lambda>e. show_alert (''Error recalculating score: '' @ err_message e) ''error'' s2);
          s3 = (case sbind r (assign_scores (current_profile s2)) of
                  Inl e \<Rightarrow> err e
                | Inr cp \<Rightarrow> show_alert ''Score recalculated successfully!'' ''success''
                             (update_ui (s2\<lparr>current_profile := cp\<rparr>)))
      in show_loading False s3)"

section \<open>Export\<close>

text \<open>\<open>new Date().toISOString().split('T')[0]\<close>: the UTC date as
  \<open>YYYY-MM-DD\<close> (years 0 to 9999).\<close>

definition pad_left :: "nat \<Rightarrow> string \<Rightarrow> string" where
  "pad_left w ds = replicate (w - length ds) (CHR ''0'') @ ds"



section \<open>Field validation and formatting\<close>

text \<open>The blur handler of the percentage inputs (lines 459--470): a number
  outside \<open>[0, 100]\<close> is flagged; \<open>NaN\<close> is not.\<close>

fun out_of_percent :: "jnum \<Rightarrow> bool" where
  "out_of_percent (Num r) = (r < 0 \<or> r > 100)"
| "out_of_percent NaN = False"
| "out_of_percent PosInf = True"
| "out_of_percent NegInf = True"

definition percentage_invalid :: "string \<Rightarrow> bool" where
  "percentage_invalid v = out_of_percent (parse_float v)"

definition percentage_blur :: "string \<Rightarrow> 'z profile_page_scheme \<Rightarrow> 'z profile_page_scheme" where
  "percentage_blur el s =
     (if percentage_invalid (input_value el s) then s\<lparr>invalid_fields := insert el (invalid_fields s)\<rparr>
      else s\<lparr>invalid_fields := invalid_fields s - {el}\<rparr>)"

text \<open>
  \<open>Number.prototype.toLocaleString('en-ZA')\<close> on a finite number: at most
  three fraction digits (rounded half away from zero), trailing zeros dropped,
  the decimal comma, and the integer digits grouped by threes with a no-break
  space (U+00A0, a Latin-1 character). Infinite values are not formatted by the
  model.
\<close>

fun group_rev :: "string \<Rightarrow> string" where
  "group_rev (a # b # c # d # rest) = a # b # c # CHR 0xA0 # group_rev (d # rest)"
| "group_rev xs = xs"

definition group_digits :: "string \<Rightarrow> string" where
  "group_digits ds = rev (group_rev (rev ds))"

definition format_en_za :: "rat \<Rightarrow> string" where
  "format_en_za r =
     (let n = nat \<lfloor>\<bar>r\<bar> * 1000 + 1 / 2\<rfloor>;
          frac = rev (dropWhile (\<lambda>c. c = CHR ''0'') (rev (pad_left 3 (nat_str (n mod 1000)))))
      in (if r < 0 then ''-'' else []) @ group_digits (nat_str (n div 1000))
         @ (if frac = [] then [] else CHR '','' # frac))"

text \<open>The number \<open>parseFloat\<close> reads from a grouped integer: its leading
  group of at most three digits, the one before the first no-break space.\<close>

function lead_group :: "nat \<Rightarrow> nat" where
  "lead_group n = (if n < 1000 then n else lead_group (n div 1000))"
  by auto
termination by (relation "measure id") auto

declare lead_group.simps [simp del]

text \<open>The blur handler of the annual turnover input (lines 451--456).\<close>

definition turnover_blur :: "'z profile_page_scheme \<Rightarrow> 'z profile_page_scheme" where
  "turnover_blur s =
     (case parse_float (input_value ''annualTurnover'' s) of
        Num r \<Rightarrow> set_input ''annualTurnover'' (format_en_za r) s
      | _ \<Rightarrow> s)"

text \<open>\<open>validateForm(formId)\<close> (lines 422--437), given the required controls
  of the form with their values: whether all are non-blank, and the controls
  marked invalid afterwards. No handler of the file calls it.\<close>

definition validate_form :: "(string \<times> string) list \<Rightarrow> string set \<Rightarrow> bool \<times> string set" where
  "validate_form req marked =
     (list_all (\<lambda>f. js_trim (snd f) \<noteq> []) req,
      (marked - {el. \<exists>v. (el, v) \<in> set req \<and> js_trim v \<noteq> []}) \<union> {el. \<exists>v. (el, v) \<in> set req \<and> js_trim v = []})"

section \<open>Construction\<close>

text \<open>The constructor (lines 7--12) before \<open>init()\<close> runs: the token is
  read from \<open>localStorage['authToken']\<close>, there is no profile yet. The
  page's controls, the options of the work-category select and the circle's
  initial offset come from the HTML.\<close>

definition new_profile_manager :: "browser \<Rightarrow> (string \<rightharpoonup> string) \<Rightarrow> string list \<Rightarrow> rat \<Rightarrow> profile_page" where
  "new_profile_manager b ins opts off =
     \<lparr>storage = storage b, navs = navs b, requests = requests b, now = now b, timers = timers b,
      pm_token = get_item ''authToken'' b, current_profile = JNull, listeners_installed = False,
      inputs = ins, category_options = opts, selected_categories = [], texts = Map.empty,
      score_offset = off, last_updated = None, loading_shown = False, toasts = [], alerts = [],
      downloads = [], invalid_fields = {}\<rparr>"

text \<open>A browser with empty storage at time 0, nothing sent, nothing scheduled.\<close>

definition fresh_browser :: browser where
  "fresh_browser = \<lparr>storage = Map.empty, navs = [], requests = [], now = 0, timers = []\<rparr>"

text \<open>The manager as constructed on a fresh browser, before \<open>init()\<close>.\<close>

abbreviation pm0 :: profile_page where
  "pm0 \<equiv> new_profile_manager fresh_browser Map.empty [] 0"

text \<open>What \<open>coerce_field\<close> does to one stored value.\<close>

definition coerce_val :: "jsval \<Rightarrow> jsval" where
  "coerce_val v = (if v = JUndef then v else JNumber (num_or_zero (parse_float (to_str v))))"

section \<open>What the page operations leave alone\<close>

lemma offset_case_frame [simp]:
  "listeners_installed (case n of Num r \<Rightarrow> s\<lparr>score_offset := f r\<rparr> | _ \<Rightarrow> s) = listeners_installed s"
  "storage (case n of Num r \<Rightarrow> s\<lparr>score_offset := f r\<rparr> | _ \<Rightarrow> s) = storage s"
  "requests (case n of Num r \<Rightarrow> s\<lparr>score_offset := f r\<rparr> | _ \<Rightarrow> s) = requests s"
  "pm_token (case n of Num r \<Rightarrow> s\<lparr>score_offset := f r\<rparr> | _ \<Rightarrow> s) = pm_token s"
  "toasts (case n of Num r \<Rightarrow> s\<lparr>score_offset := f r\<rparr> | _ \<Rightarrow> s) = toasts s"
  "current_profile (case n of Num r \<Rightarrow> s\<lparr>score_offset := f r\<rparr> | _ \<Rightarrow> s) = current_profile s"
  "alerts (case n of Num r \<Rightarrow> s\<lparr>score_offset := f r\<rparr> | _ \<Rightarrow> s) = alerts s"
  by (cases n; simp)+

lemma update_ui_frame [simp]:
  "listeners_installed (update_ui s) = listeners_installed s"
  "storage (update_ui s) = storage s"
  "requests (update_ui s) = requests s"
  "pm_token (update_ui s) = pm_token s"
  "toasts (update_ui s) = toasts s"
  "alerts (update_ui s) = alerts s"
  unfolding update_ui_def Let_def by (simp_all add: set_text_def)

lemma fill_field_frame [simp]:
  "listeners_installed (fill_field p f s) = listeners_installed s"
  "storage (fill_field p f s) = storage s"
  "requests (fill_field p f s) = requests s"
  "pm_token (fill_field p f s) = pm_token s"
  by (simp_all add: fill_field_def Let_def set_input_def)

lemma fill_fields_frame [simp]:
  "listeners_installed (fold (fill_field p) fs s) = listeners_installed s"
  "storage (fold (fill_field p) fs s) = storage s"
  "requests (fold (fill_field p) fs s) = requests s"
  "pm_token (fold (fill_field p) fs s) = pm_token s"
  by (rule fold_preserves, simp)+

lemma populate_forms_frame [simp]:
  "listeners_installed (populate_forms s) = listeners_installed s"
  "storage (populate_forms s) = storage s"
  "requests (populate_forms s) = requests s"
  "pm_token (populate_forms s) = pm_token s"
  unfolding populate_forms_def Let_def calculate_success_rate_def
  by (simp_all add: fill_categories_def Let_def set_text_def)

lemma load_profile_frame [simp]:
  "listeners_installed (load_profile out s) = listeners_installed s"
  "storage (load_profile out s) = storage s"
  "pm_token (load_profile out s) = pm_token s"
  "requests (load_profile out s) =
     requests s @ [\<lparr>req_method = ''GET'', req_url = profile_base_url @ ''/profiles'',
                    req_auth = Some (''Bearer '' @ to_str (pm_token s)), req_body = None\<rparr>]"
  by (simp_all add: load_profile_def Let_def api_call_def send_def show_alert_def show_loading_def
      split: sum.split)

lemma pm_login_listeners [simp]: "listeners_installed (pm_login e p o1 o2 s) = listeners_installed s"
  by (simp add: pm_login_def Let_def send_def set_item_def
      split: fetch_outcome.split sum.split)

lemma show_login_modal_listeners [simp]:
  "listeners_installed (show_login_modal em pw o1 o2 s) = listeners_installed s"
  by (simp add: show_login_modal_def split: option.split)

lemma api_call_ok:
  "http_ok st \<Longrightarrow> fst (api_call tok ep m d (Response st (Inr v)) s) = Inr v"
  by (simp add: api_call_def Let_def)

lemma assign_scores_null: "assign_scores JNull (JObj ps) =
  Inl (TypeError (''Cannot set properties of null (setting '' @ [CHR 0x27] @ ''readiness_score'' @ [CHR 0x27] @ '')''))"
  by (simp add: assign_scores_def)

section \<open>Properties of the success rate\<close>

lemma parse_int_cases:
  "parse_int v = NaN \<or> (\<exists>n::nat. parse_int v = Num (of_nat n) \<or> parse_int v = Num (- of_nat n))"
  by (auto simp: parse_int_def Let_def split: prod.split)

lemma int_or_zero_int: "\<exists>i. int_or_zero v = of_int i"
proof -
  consider "parse_int v = NaN" | n where "parse_int v = Num (of_nat n)" | n where "parse_int v = Num (- of_nat n)"
    using parse_int_cases[of v] by blast
  then show ?thesis
  proof cases
    case 1
    then show ?thesis by (intro exI[of _ 0]) (simp add: int_or_zero_def)
  next
    case (2 n)
    then show ?thesis by (intro exI[of _ "int n"]) (simp add: int_or_zero_def)
  next
    case (3 n)
    then show ?thesis by (intro exI[of _ "- int n"]) (simp add: int_or_zero_def)
  qed
qed



section \<open>Properties of the score display\<close>


text \<open>What \<open>updateUI\<close> shows for a profile object with a finite score.\<close>

lemma update_ui_finite_score:
  assumes "current_profile s = JObj ps" and "js_or (obj_get ps ''readiness_score'') (JNumber (Num 0)) = JNumber (Num r)"
  shows "score_offset (update_ui s) = circle_offset r"
    and "texts (update_ui s) ''scoreDescription'' = Some (score_description (Num r))"
    and "texts (update_ui s) ''scoreValue'' = Some (num_str (Num r))"
  using assms by (simp_all add: update_ui_def Let_def set_text_def read_prop_def)

text \<open>C6. Given a profile with readiness score 72, the circle's offset is
  \<open>2\<pi>\<cdot>50 - (72/100)\<cdot>2\<pi>\<cdot>50\<close> and the description reads "Good! Your
  readiness score is above average".\<close>

theorem update_ui_score_72:
  assumes "current_profile s = JObj ps" and "obj_get ps ''readiness_score'' = JNumber (Num 72)"
  shows "offset_length (score_offset (update_ui s)) = 2 * pi * 50 - (72 / 100) * (2 * pi * 50)
       \<and> texts (update_ui s) ''scoreDescription'' = Some ''Good! Your readiness score is above average''"
proof -
  have sc: "js_or (obj_get ps ''readiness_score'') (JNumber (Num 0)) = JNumber (Num 72)"
    using assms(2) by simp
  have "score_offset (update_ui s) = circle_offset 72"
    by (rule update_ui_finite_score(1)[OF assms(1) sc])
  moreover have "texts (update_ui s) ''scoreDescription'' = Some (score_description (Num 72))"
    by (rule update_ui_finite_score(2)[OF assms(1) sc])
  ultimately show ?thesis
    by (simp add: offset_length_def circle_offset_def circumference_def score_description_def)
qed

section \<open>Properties of form submission\<close>

lemma num_or_zero_not_NaN [simp]: "num_or_zero n \<noteq> NaN"
  by (cases n) (simp_all add: num_or_zero_def)

lemma map_of_coerce_field:
  "map_of (coerce_field d f) k = (if k = f then map_option coerce_val (map_of d k) else map_of d k)"
  by (auto simp: coerce_field_def coerce_val_def obj_get_def update_conv split: option.split)

lemma map_of_coerce_fields:
  "distinct fs \<Longrightarrow>
   map_of (foldl coerce_field d fs) k = (if k \<in> set fs then map_option coerce_val (map_of d k) else map_of d k)"
proof (induction fs arbitrary: d)
  case Nil
  then show ?case by simp
next
  case (Cons f fs)
  then show ?case by (auto simp: map_of_coerce_field)
qed

lemma in_set_update: "p \<in> set (AList.update k v d) \<Longrightarrow> p = (k, v) \<or> p \<in> set d"
  by (induction d) (auto split: if_splits)

lemma distinct_collect_entry: "distinct (map fst d) \<Longrightarrow> distinct (map fst (collect_entry d e))"
  by (cases e) (simp add: collect_entry_def distinct_update)

lemma distinct_coerce_field: "distinct (map fst d) \<Longrightarrow> distinct (map fst (coerce_field d f))"
  by (simp add: coerce_field_def distinct_update)

lemma distinct_foldl:
  assumes "\<And>d x. distinct (map fst d) \<Longrightarrow> distinct (map fst (f d x))"
  shows "distinct (map fst d) \<Longrightarrow> distinct (map fst (foldl f d xs))"
  using assms by (induction xs arbitrary: d) auto

lemma distinct_form_data: "distinct (map fst (form_data ft es sel))"
proof -
  have d1: "distinct (map fst (foldl collect_entry [] es))"
    by (rule distinct_foldl[OF distinct_collect_entry]) simp_all
  let ?d2 = "if ft = ''cidb'' then AList.update ''cidb_work_categories'' (JArr (map JStr sel)) (foldl collect_entry [] es)
             else foldl collect_entry [] es"
  have d2: "distinct (map fst ?d2)" using d1 by (simp add: distinct_update)
  have "distinct (map fst (foldl coerce_field ?d2 numeric_fields))"
    by (rule distinct_foldl[OF distinct_coerce_field d2])
  then show ?thesis by (simp add: form_data_def Let_def)
qed

lemma collect_entry_defined:
  assumes "\<forall>p \<in> set d. snd p \<noteq> JUndef"
  shows "\<forall>p \<in> set (collect_entry d e). snd p \<noteq> JUndef"
proof -
  obtain k v where e: "e = (k, v)" by (cases e)
  show ?thesis using assms by (auto simp: collect_entry_def e dest: in_set_update)
qed

lemma collected_defined:
  "\<forall>p \<in> set d. snd p \<noteq> JUndef \<Longrightarrow> \<forall>p \<in> set (foldl collect_entry d es). snd p \<noteq> JUndef"
proof (induction es arbitrary: d)
  case Nil
  then show ?case by simp
next
  case (Cons e es)
  have "\<forall>p \<in> set (collect_entry d e). snd p \<noteq> JUndef"
    by (rule collect_entry_defined[OF Cons.prems])
  then show ?case using Cons.IH by simp
qed

lemma distinct_numeric_fields: "distinct numeric_fields"
  by (simp add: numeric_fields_def)

lemma current_profile_update_ui [simp]: "current_profile (update_ui s) = current_profile s"
  unfolding update_ui_def Let_def by (simp add: set_text_def)

lemma current_profile_show_alert [simp]: "current_profile (show_alert m t s) = current_profile s"
  and current_profile_show_loading [simp]: "current_profile (show_loading b s) = current_profile s"
  and selected_categories_show_loading [simp]: "selected_categories (show_loading b s) = selected_categories s"
  and pm_token_show_loading [simp]: "pm_token (show_loading b s) = pm_token s"
  and toasts_show_loading [simp]: "toasts (show_loading b s) = toasts s"
  by (simp_all add: show_alert_def show_loading_def)

lemma form_data_values_defined:
  "\<forall>p \<in> set (if ft = ''cidb'' then AList.update ''cidb_work_categories'' (JArr (map JStr sel)) (foldl collect_entry [] es)
             else foldl collect_entry [] es). snd p \<noteq> JUndef"
  using collected_defined[of "[]" es] by (auto dest: in_set_update)

text \<open>C17. Every numeric field that \<open>handleFormSubmit\<close> sends is a number,
  never \<open>NaN\<close>: an unparsable entry is sent as 0.\<close>

theorem form_data_numeric:
  assumes "k \<in> set numeric_fields" and "map_of (form_data ft es sel) k = Some v"
  shows "\<exists>n. v = JNumber n \<and> n \<noteq> NaN"
proof -
  let ?d2 = "if ft = ''cidb'' then AList.update ''cidb_work_categories'' (JArr (map JStr sel)) (foldl collect_entry [] es)
             else foldl collect_entry [] es"
  have "map_of (form_data ft es sel) k = map_option coerce_val (map_of ?d2 k)"
    using assms(1) distinct_numeric_fields by (simp add: form_data_def Let_def map_of_coerce_fields)
  with assms(2) obtain v0 where v0: "map_of ?d2 k = Some v0" and v: "v = coerce_val v0" by auto
  from v0 have "(k, v0) \<in> set ?d2" by (rule map_of_SomeD)
  with form_data_values_defined have "v0 \<noteq> JUndef" by fastforce
  with v show ?thesis by (simp add: coerce_val_def)
qed

lemma collect_blank_key:
  "k \<noteq> ''cidb_work_categories'' \<Longrightarrow> \<forall>v. (k, v) \<in> set es \<longrightarrow> v = [] \<Longrightarrow>
   map_of (foldl collect_entry d es) k = map_of d k"
proof (induction es arbitrary: d)
  case Nil
  then show ?case by simp
next
  case (Cons e es)
  obtain k' v' where e: "e = (k', v')" by (cases e)
  have "map_of (collect_entry d e) k = map_of d k"
    using Cons.prems by (auto simp: collect_entry_def e update_conv)
  with Cons show ?case by simp
qed

text \<open>C23. A field left blank (every entry for it empty) is not sent at all,
  so clearing a control never clears the stored value.\<close>

theorem form_data_blank:
  assumes "k \<noteq> ''cidb_work_categories''" and "\<forall>v. (k, v) \<in> set es \<longrightarrow> v = []"
  shows "map_of (form_data ft es sel) k = None"
  using assms distinct_numeric_fields
  by (simp add: form_data_def Let_def map_of_coerce_fields collect_blank_key update_conv)

lemma handle_form_submit_profile:
  assumes "current_profile s = JObj old" and "out = Response st (Inr resp)" and "http_ok st"
    and "get_prop resp ''profile'' = Inr sp" and "truthy sp"
  shows "current_profile (handle_form_submit ft es out s) =
           JObj (AList.update ''last_score_calculation'' (read_prop sp ''last_score_calculation'')
                  (AList.update ''profile_completion_percentage'' (read_prop sp ''profile_completion_percentage'')
                    (AList.update ''readiness_score'' (read_prop sp ''readiness_score'')
                      (spread old (form_data ft es (selected_categories s))))))"
  using assms by (simp add: handle_form_submit_def api_call_def send_def Let_def)

text \<open>C9. After a successful PUT whose response carries a profile object, the
  current profile is the old profile overridden by the submitted data, with the
  three score fields taken from the response, present or not.\<close>

theorem handle_form_submit_merge:
  assumes "current_profile s = JObj old" and "out = Response st (Inr resp)" and "http_ok st"
    and "get_prop resp ''profile'' = Inr sp" and "truthy sp"
  shows "\<exists>new. current_profile (handle_form_submit ft es out s) = JObj new
           \<and> map_of new = (map_of old ++ map_of (form_data ft es (selected_categories s)))
               (''readiness_score'' \<mapsto> read_prop sp ''readiness_score'',
                ''profile_completion_percentage'' \<mapsto> read_prop sp ''profile_completion_percentage'',
                ''last_score_calculation'' \<mapsto> read_prop sp ''last_score_calculation'')"
  using handle_form_submit_profile[OF assms] distinct_form_data
  by (simp add: update_conv' map_of_rev_distinct)

text \<open>C22. When the PUT rejects, the current profile is unchanged and one
  error toast carrying the rejection's message is shown.\<close>

theorem handle_form_submit_error:
  assumes "settle ''error'' ''Unknown error'' out = Inl e"
  shows "current_profile (handle_form_submit ft es out s) = current_profile s
       \<and> toasts (handle_form_submit ft es out s) = toasts s @ [(''Error'', ''Error saving profile: '' @ err_message e)]"
  using assms by (simp add: handle_form_submit_def api_call_def send_def Let_def show_alert_def)

section \<open>Properties of initialisation and login\<close>

text \<open>C24. Event listeners are attached by \<open>init()\<close> exactly when a token was stored:
  the path that logs in through the prompts never attaches them, even after a
  successful login and profile load, so the forms then have no submit handlers.\<close>

theorem pm_init_listeners:
  "listeners_installed (pm_init em pw o1 o2 s) \<longleftrightarrow> truthy (pm_token s) \<or> listeners_installed s"
  by (simp add: pm_init_def setup_event_listeners_def)

text \<open>C25. A successful login response without a \<open>token\<close> field stores the string
  \<open>undefined\<close> as the token, and the profile request that follows is sent
  with the header \<open>Bearer undefined\<close>.\<close>

theorem pm_login_missing_token:
  assumes "out1 = Response st (Inr (JObj ps))" and "http_ok st" and "map_of ps ''token'' = None"
  shows "storage (pm_login email pw out1 out2 s) ''authToken'' = Some ''undefined''
       \<and> req_auth (last (requests (pm_login email pw out1 out2 s))) = Some ''Bearer undefined''"
  using assms by (simp add: pm_login_def Let_def send_def set_item_def obj_get_def json_body_def)

section \<open>Properties of score recalculation\<close>

text \<open>C33. Recalculating the score before a profile is loaded (the profile is
  \<open>null\<close>) fails on the first assignment: the profile stays \<open>null\<close> and one
  error toast carries the TypeError message.\<close>

theorem recalculate_score_null_profile:
  assumes "current_profile s = JNull" and "out = Response st (Inr (JObj ps))" and "http_ok st"
  shows "current_profile (recalculate_score out s) = JNull
       \<and> toasts (recalculate_score out s) =
           toasts s @ [(''Error'', ''Error recalculating score: Cannot set properties of null (setting '' @ [CHR 0x27] @ ''readiness_score'' @ [CHR 0x27] @ '')'')]"
proof -
  let ?s1 = "show_loading True s"
  obtain s2 where a: "api_call (pm_token ?s1) ''/profiles/score'' ''POST'' JNull out ?s1 = (Inr (JObj ps), s2)"
    and c: "current_profile s2 = JNull" and t: "toasts s2 = toasts s"
    using assms by (simp add: api_call_def Let_def send_def show_loading_def)
  show ?thesis
    unfolding recalculate_score_def Let_def a
    by (simp add: c t assign_scores_null show_alert_def show_loading_def)
qed

section \<open>Properties of export\<close>


text \<open>C30. After a save whose response profile has no \<open>last_score_calculation\<close>,
  the in-memory profile holds \<open>undefined\<close> there, so an export does not
  parse back to the profile the page shows.\<close>

theorem handle_form_submit_export_lossy:
  assumes "current_profile s = JObj old" and "out = Response st (Inr resp)" and "http_ok st"
    and "get_prop resp ''profile'' = Inr sp" and "truthy sp"
    and "read_prop sp ''last_score_calculation'' = JUndef"
  shows "json_roundtrip (current_profile (handle_form_submit ft es out s))
           \<noteq> Some (current_profile (handle_form_submit ft es out s))"
proof -
  obtain new where cp: "current_profile (handle_form_submit ft es out s) = JObj new"
    and m: "map_of new ''last_score_calculation'' = Some JUndef"
    using handle_form_submit_profile[OF assms(1-5)] assms(6) by (simp add: update_conv')
  from m have "(''last_score_calculation'', JUndef) \<in> set new" by (rule map_of_SomeD)
  then have "\<exists>p \<in> set new. \<not> json_clean (snd p)" by (rule bexI[rotated]) simp
  then have "\<not> json_clean (JObj new)" by (simp add: list_all_iff)
  then show ?thesis using json_roundtrip_clean_iff[of "JObj new"] cp
    by (simp del: json_roundtrip.simps json_clean.simps)
qed

section \<open>Properties of field formatting and validation\<close>

lemma group_rev_short: "length xs \<le> 3 \<Longrightarrow> group_rev xs = xs"
  by (cases xs rule: group_rev.cases) auto

lemma group_digits_append3:
  assumes "length t = 3" and "xs \<noteq> []"
  shows "group_digits (xs @ t) = group_digits xs @ CHR 0xA0 # t"
proof -
  obtain a b c where t: "t = [a, b, c]"
    using assms(1) by (cases t rule: group_rev.cases) auto
  obtain d rest where xs: "rev xs = d # rest" using assms(2) by (cases "rev xs") auto
  show ?thesis by (simp add: group_digits_def t xs)
qed

lemma length_nat_str_less_1000: "n < 1000 \<Longrightarrow> length (nat_str n) \<le> 3"
proof -
  have "n < 10 ^ k \<Longrightarrow> 0 < k \<Longrightarrow> length (nat_str n) \<le> k" for k
  proof (induction n arbitrary: k rule: nat_str.induct)
    case (1 n)
    show ?case
    proof (cases "n < 10")
      case True
      then show ?thesis using "1.prems" by (subst nat_str.simps) simp
    next
      case False
      then obtain j where k: "k = Suc j" and j: "0 < j" using "1.prems"
        by (cases k; cases "k - 1") auto
      have "n div 10 < 10 ^ j" using "1.prems"(1) k by (simp add: div_less_iff_less_mult mult.commute)
      with "1.IH"[OF False _ j] False k show ?thesis by (subst nat_str.simps) simp
    qed
  qed
  then show "n < 1000 \<Longrightarrow> length (nat_str n) \<le> 3" by (simp add: numeral_3_eq_3)
qed

lemma group_digits_nat_str:
  "\<exists>t. group_digits (nat_str n) = nat_str (lead_group n) @ t \<and> (t = [] \<or> hd t = CHR 0xA0) \<and> (1000 \<le> n \<longrightarrow> t \<noteq> [])"
proof (induction n rule: lead_group.induct)
  case (1 n)
  show ?case
  proof (cases "n < 1000")
    case True
    then have "group_digits (nat_str n) = nat_str n"
      using length_nat_str_less_1000[of n] by (simp add: group_digits_def group_rev_short)
    with True show ?thesis by (simp add: lead_group.simps)
  next
    case False
    obtain t where t: "length t = 3" "nat_str n = nat_str (n div 1000) @ t"
      using nat_str_split3[of n] False by auto
    obtain u where u: "group_digits (nat_str (n div 1000)) = nat_str (lead_group (n div 1000)) @ u"
      "u = [] \<or> hd u = CHR 0xA0"
      using "1.IH" False by blast
    have "group_digits (nat_str n) = nat_str (lead_group n) @ (u @ CHR 0xA0 # t)"
      using False by (simp add: t group_digits_append3 u lead_group.simps[of n])
    with u(2) False show ?thesis by (cases u) auto
  qed
qed

lemma lead_group_le: "lead_group n \<le> n"
proof (induction n rule: lead_group.induct)
  case (1 n)
  show ?case
  proof (cases "n < 1000")
    case True
    then show ?thesis by (simp add: lead_group.simps[of n])
  next
    case False
    with "1.IH" have "lead_group (n div 1000) \<le> n div 1000" by simp
    moreover have "n div 1000 \<le> n" by simp
    ultimately show ?thesis using False by (simp add: lead_group.simps[of n])
  qed
qed

lemma lead_group_less: "1000 \<le> n \<Longrightarrow> lead_group n < n"
  using lead_group_le[of "n div 1000"] by (subst lead_group.simps) simp

lemma format_floor_nat: "nat \<lfloor>\<bar>of_nat n :: rat\<bar> * 1000 + 1 / 2\<rfloor> = n * 1000"
proof -
  have "\<lfloor>\<bar>of_nat n :: rat\<bar> * 1000 + 1 / 2\<rfloor> = int (n * 1000)"
    by (rule floor_unique) simp_all
  then show ?thesis by simp
qed

lemma format_frac_nat: "rev (dropWhile (\<lambda>c. c = CHR ''0'') (rev (pad_left 3 (nat_str (n * 1000 mod 1000))))) = []"
proof -
  have z: "nat_str 0 = ''0''" by (subst nat_str.simps) code_simp
  show ?thesis by (simp add: z pad_left_def numeral_3_eq_3)
qed

lemma format_en_za_nat: "format_en_za (of_nat n) = group_digits (nat_str n)"
proof -
  have d: "n * 1000 div 1000 = n" by simp
  have p: "\<not> (of_nat n :: rat) < 0" by simp
  show ?thesis unfolding format_en_za_def Let_def format_floor_nat format_frac_nat by (simp only: d p if_True if_False simp_thms(6) append_Nil append_Nil2)
qed

lemma parse_float_group_digits: "parse_float (group_digits (nat_str n)) = Num (of_nat (lead_group n))"
proof -
  obtain t where t: "group_digits (nat_str n) = nat_str (lead_group n) @ t" "t = [] \<or> hd t = CHR 0xA0"
    using group_digits_nat_str[of n] by blast
  show ?thesis
  proof (cases t)
    case Nil
    then show ?thesis by (simp only: t append_Nil2 parse_float_nat_str_end)
  next
    case (Cons c r)
    with t(2) have c: "c = CHR 0xA0" by simp
    have "\<not> is_digit c" "c \<noteq> CHR ''.''" "c \<noteq> CHR ''e''" "c \<noteq> CHR ''E''"
      by (simp_all add: c is_digit_def)
    from parse_float_nat_str[OF this, of "lead_group n" r] show ?thesis by (simp only: t Cons)
  qed
qed

lemma turnover_blur_nat:
  "input_value ''annualTurnover'' s = nat_str n \<Longrightarrow>
   input_value ''annualTurnover'' (turnover_blur s) = group_digits (nat_str n)"
  by (simp add: turnover_blur_def format_en_za_nat input_value_def set_input_def)

lemma lead_group_pos: "0 < n \<Longrightarrow> 0 < lead_group n"
proof (induction n rule: lead_group.induct)
  case (1 n)
  then show ?case by (subst lead_group.simps) simp
qed

lemma collect_last_entry:
  assumes "k \<noteq> ''cidb_work_categories''" and "v \<noteq> []" and "\<forall>w. (k, w) \<in> set ys \<longrightarrow> w = []"
  shows "map_of (foldl collect_entry d (xs @ (k, v) # ys)) k = Some (JStr v)"
  using collect_blank_key[OF assms(1) assms(3)] assms(1,2) by (simp add: collect_entry_def update_conv)

lemma form_data_numeric_entry:
  assumes "k \<in> set numeric_fields" and "k \<noteq> ''cidb_work_categories''"
  shows "map_of (form_data ft es sel) k = map_option coerce_val (map_of (foldl collect_entry [] es) k)"
  using assms distinct_numeric_fields by (simp add: form_data_def Let_def map_of_coerce_fields update_conv)

text \<open>C31. An annual turnover of four or more digits, once the blur handler has
  formatted it with en-ZA grouping, is submitted as its leading group only:
  \<open>parseFloat\<close> stops at the first no-break space.\<close>

theorem turnover_blur_submit:
  assumes "input_value ''annualTurnover'' s = nat_str n" and "1000 \<le> n"
    and "es = xs @ (''annual_turnover'', input_value ''annualTurnover'' (turnover_blur s)) # ys"
    and "\<forall>w. (''annual_turnover'', w) \<in> set ys \<longrightarrow> w = []"
  shows "map_of (form_data ft es sel) ''annual_turnover'' = Some (JNumber (Num (of_nat (lead_group n))))
       \<and> lead_group n < n"
proof -
  let ?g = "group_digits (nat_str n)"
  have blur: "input_value ''annualTurnover'' (turnover_blur s) = ?g"
    using assms(1) by (rule turnover_blur_nat)
  have ne: "?g \<noteq> []"
    using group_digits_nat_str[of n] nat_str_not_Nil[of "lead_group n"] by (metis Nil_is_append_conv)
  have "map_of (foldl collect_entry [] es) ''annual_turnover'' = Some (JStr ?g)"
    using collect_last_entry[OF _ ne assms(4)] by (simp add: assms(3) blur)
  moreover have "0 < lead_group n" using assms(2) by (intro lead_group_pos) simp
  ultimately show ?thesis
    using form_data_numeric_entry[of "''annual_turnover''" ft es sel] assms(2) lead_group_less
    by (simp add: numeric_fields_def coerce_val_def parse_float_group_digits num_or_zero_def)
qed

text \<open>C7. The percentage blur handler marks a whole-number entry invalid exactly when
  it exceeds 100.\<close>

theorem percentage_blur_nat:
  "el \<in> invalid_fields (percentage_blur el (set_input el (nat_str n) s)) \<longleftrightarrow> 100 < n"
  by (simp add: percentage_blur_def percentage_invalid_def input_value_def set_input_def)

text \<open>C32. An entry that does not parse as a number is not marked invalid, and is
  submitted as 0.\<close>

theorem percentage_blur_nan:
  assumes "parse_float v = NaN"
  shows "el \<notin> invalid_fields (percentage_blur el (set_input el v s)) \<and> coerce_val (JStr v) = JNumber (Num 0)"
  using assms by (simp add: percentage_blur_def percentage_invalid_def input_value_def set_input_def
      coerce_val_def num_or_zero_def)

section \<open>Witnesses\<close>




theorem update_ui_score_72_witness:
  "current_profile ((new_profile_manager fresh_browser Map.empty [] 0)\<lparr>current_profile := JObj [(''readiness_score'', JNumber (Num 72))]\<rparr>)
     = JObj [(''readiness_score'', JNumber (Num 72))]
   \<and> obj_get [(''readiness_score'', JNumber (Num 72))] ''readiness_score'' = JNumber (Num 72)
   \<and> offset_length (score_offset (update_ui ((new_profile_manager fresh_browser Map.empty [] 0)\<lparr>current_profile := JObj [(''readiness_score'', JNumber (Num 72))]\<rparr>)))
       = 2 * pi * 50 - (72 / 100) * (2 * pi * 50)
   \<and> texts (update_ui ((new_profile_manager fresh_browser Map.empty [] 0)\<lparr>current_profile := JObj [(''readiness_score'', JNumber (Num 72))]\<rparr>)) ''scoreDescription''
       = Some ''Good! Your readiness score is above average''"
proof -
  let ?s = "(new_profile_manager fresh_browser Map.empty [] 0)\<lparr>current_profile := JObj [(''readiness_score'', JNumber (Num 72))]\<rparr>"
  have h1: "current_profile ?s = JObj [(''readiness_score'', JNumber (Num 72))]" by simp
  have h2: "obj_get [(''readiness_score'', JNumber (Num 72))] ''readiness_score'' = JNumber (Num 72)"
    by (simp add: obj_get_def)
  show ?thesis using h1 h2 update_ui_score_72[OF h1 h2] by simp
qed

theorem form_data_numeric_witness:
  "''annual_turnover'' \<in> set numeric_fields
   \<and> map_of (form_data ''company'' [(''annual_turnover'', ''12abc'')] []) ''annual_turnover'' = Some (JNumber (Num 12))
   \<and> (\<exists>n. JNumber (Num 12) = JNumber n \<and> n \<noteq> NaN)"
proof -
  have h1: "''annual_turnover'' \<in> set numeric_fields" by (simp add: numeric_fields_def)
  have h2: "map_of (form_data ''company'' [(''annual_turnover'', ''12abc'')] []) ''annual_turnover'' = Some (JNumber (Num 12))"
    by code_simp
  show ?thesis using h1 h2 form_data_numeric[OF h1 h2] by simp
qed

theorem form_data_blank_witness:
  "''bee_level'' \<noteq> ''cidb_work_categories''
   \<and> map_of (form_data ''bee'' [(''bee_level'', [])] []) ''bee_level'' = None"
proof -
  have h1: "''bee_level'' \<noteq> ''cidb_work_categories''" by simp
  have h2: "\<forall>v. (''bee_level'', v) \<in> set [(''bee_level'', [])] \<longrightarrow> v = []" by simp
  show ?thesis using h1 form_data_blank[OF h1 h2, of "''bee''" "[]"] by simp
qed

theorem handle_form_submit_merge_witness:
  "current_profile ((new_profile_manager fresh_browser Map.empty [] 0)\<lparr>current_profile := JObj [(''company_name'', JStr ''Acme'')]\<rparr>)
     = JObj [(''company_name'', JStr ''Acme'')]
   \<and> http_ok 200
   \<and> get_prop (JObj [(''profile'', JObj [(''readiness_score'', JNumber (Num 72))])]) ''profile''
       = Inr (JObj [(''readiness_score'', JNumber (Num 72))])
   \<and> truthy (JObj [(''readiness_score'', JNumber (Num 72))])
   \<and> (\<exists>new. current_profile (handle_form_submit ''bee'' [(''bee_level'', ''2'')]
             (Response 200 (Inr (JObj [(''profile'', JObj [(''readiness_score'', JNumber (Num 72))])])))
             ((new_profile_manager fresh_browser Map.empty [] 0)\<lparr>current_profile := JObj [(''company_name'', JStr ''Acme'')]\<rparr>)) = JObj new
       \<and> map_of new = (map_of [(''company_name'', JStr ''Acme'')] ++ map_of (form_data ''bee'' [(''bee_level'', ''2'')] []))
           (''readiness_score'' \<mapsto> read_prop (JObj [(''readiness_score'', JNumber (Num 72))]) ''readiness_score'',
            ''profile_completion_percentage'' \<mapsto> read_prop (JObj [(''readiness_score'', JNumber (Num 72))]) ''profile_completion_percentage'',
            ''last_score_calculation'' \<mapsto> read_prop (JObj [(''readiness_score'', JNumber (Num 72))]) ''last_score_calculation''))"
proof -
  let ?s = "(new_profile_manager fresh_browser Map.empty [] 0)\<lparr>current_profile := JObj [(''company_name'', JStr ''Acme'')]\<rparr>"
  let ?sp = "JObj [(''readiness_score'', JNumber (Num 72))]"
  have h1: "current_profile ?s = JObj [(''company_name'', JStr ''Acme'')]" by simp
  have h2: "Response 200 (Inr (JObj [(''profile'', ?sp)])) = Response 200 (Inr (JObj [(''profile'', ?sp)]))" by (rule refl)
  have h3: "http_ok 200" by (simp add: http_ok_def)
  have h4: "get_prop (JObj [(''profile'', ?sp)]) ''profile'' = Inr ?sp" by (simp add: obj_get_def)
  have h5: "truthy ?sp" by simp
  have sel: "selected_categories ?s = []" by (simp add: new_profile_manager_def)
  show ?thesis
    using h1 h3 h4 h5 handle_form_submit_merge[OF h1 h2 h3 h4 h5, of "''bee''" "[(''bee_level'', ''2'')]"]
    by (simp only: sel)
qed

theorem handle_form_submit_error_witness:
  "settle ''error'' ''Unknown error'' Net_failure = Inl fetch_error
   \<and> current_profile (handle_form_submit ''bee'' [] Net_failure (new_profile_manager fresh_browser Map.empty [] 0)) = JNull
   \<and> toasts (handle_form_submit ''bee'' [] Net_failure (new_profile_manager fresh_browser Map.empty [] 0))
       = [(''Error'', ''Error saving profile: Failed to fetch'')]"
proof -
  have h: "settle ''error'' ''Unknown error'' Net_failure = Inl fetch_error" by (simp add: settle_def)
  show ?thesis
    using h handle_form_submit_error[OF h, of "''bee''" "[]" "new_profile_manager fresh_browser Map.empty [] 0"]
    by (simp add: new_profile_manager_def fetch_error_def)
qed

theorem turnover_blur_submit_witness:
  "map_of (form_data ''company'' [(''annual_turnover'', input_value ''annualTurnover'' (turnover_blur (set_input ''annualTurnover'' ''1234567'' pm0)))] [])
      ''annual_turnover'' = Some (JNumber (Num 1))"
proof -
  have n: "nat_str 1234567 = ''1234567''" by (simp add: nat_str.simps)
  have l: "lead_group 1234567 = 1" by (simp add: lead_group.simps)
  show ?thesis
    using turnover_blur_submit[of "set_input ''annualTurnover'' ''1234567'' pm0" 1234567
        "[(''annual_turnover'', input_value ''annualTurnover'' (turnover_blur (set_input ''annualTurnover'' ''1234567'' pm0)))]" "[]" "[]" "''company''" "[]"]
    by (simp add: n l input_value_def set_input_def)
qed

theorem percentage_blur_nan_witness:
  "''beeOwnership'' \<notin> invalid_fields (percentage_blur ''beeOwnership'' (set_input ''beeOwnership'' ''abc'' pm0))
   \<and> coerce_val (JStr ''abc'') = JNumber (Num 0)"
proof -
  have "parse_float ''abc'' = NaN" by code_simp
  then show ?thesis by (rule percentage_blur_nan)
qed


theorem handle_form_submit_export_lossy_witness:
  "json_roundtrip (current_profile (handle_form_submit ''company'' []
      (Response 200 (Inr (JObj [(''profile'', JObj [(''readiness_score'', JNumber (Num 72))])])))
      (pm0\<lparr>current_profile := JObj []\<rparr>)))
   \<noteq> Some (current_profile (handle_form_submit ''company'' []
      (Response 200 (Inr (JObj [(''profile'', JObj [(''readiness_score'', JNumber (Num 72))])])))
      (pm0\<lparr>current_profile := JObj []\<rparr>)))"
  by (rule handle_form_submit_export_lossy[of _ "[]" _ 200 "JObj [(''profile'', JObj [(''readiness_score'', JNumber (Num 72))])]"
        "JObj [(''readiness_score'', JNumber (Num 72))]"])
     (simp_all add: http_ok_def read_prop_def obj_get_def)

theorem pm_login_missing_token_witness:
  "storage (pm_login ''a@b.co'' ''pw'' (Response 200 (Inr (JObj [(''message'', JStr ''ok'')]))) Net_failure pm0) ''authToken''
     = Some ''undefined''
   \<and> req_auth (last (requests (pm_login ''a@b.co'' ''pw'' (Response 200 (Inr (JObj [(''message'', JStr ''ok'')]))) Net_failure pm0)))
     = Some ''Bearer undefined''"
  using pm_login_missing_token[of "Response 200 (Inr (JObj [(''message'', JStr ''ok'')]))" 200 "[(''message'', JStr ''ok'')]"
      "''a@b.co''" "''pw''" Net_failure pm0]
  by (simp add: http_ok_def)

theorem recalculate_score_null_profile_witness:
  "current_profile (recalculate_score (Response 200 (Inr (JObj [(''readiness_score'', JNumber (Num 80))]))) pm0) = JNull
   \<and> toasts (recalculate_score (Response 200 (Inr (JObj [(''readiness_score'', JNumber (Num 80))]))) pm0) =
       [(''Error'', ''Error recalculating score: Cannot set properties of null (setting '' @ [CHR 0x27] @ ''readiness_score'' @ [CHR 0x27] @ '')'')]"
  using recalculate_score_null_profile[of pm0 "Response 200 (Inr (JObj [(''readiness_score'', JNumber (Num 80))]))"]
  by (simp add: new_profile_manager_def http_ok_def)

end
