(* ===== verification/Auth_Page.thy ===== *)
theory Auth_Page
  imports Requests
begin

text \<open>
  The login/registration page, \<open>src/phase 2/frontend/script.js\<close>. Its state
  is the banner page (\<open>Browser\<close>) extended by the visible form and tab, the
  loading spinner and the values of the page's inputs. Every handler of the
  script is a function from the page state (and the outcome of the request it
  sends, when it sends one) to the page state: the tab switch, the two form
  handlers with their \<open>login\<close>/\<open>register\<close> calls, the
  \<open>DOMContentLoaded\<close> token check, the two real-time validators and the
  timer callbacks. The page as a whole is a step function over its events
  and the set of states reachable from a loaded page.
\<close>

section \<open>State\<close>

record auth_page = banner_page +
  active_form :: string
  active_tab :: "string option"
  spinner_visible :: bool
  forms_visible :: bool
  auth_inputs :: "string \<rightharpoonup> string"

section \<open>Tabs and spinner\<close>

text \<open>
  \<open>showTab(tabName)\<close> (lines 11--30): the form \<open>tabName-form\<close> becomes
  the active one and every tab button inactive; then \<open>event.target\<close>, the
  global \<open>window.event\<close>, is read. From an \<open>onclick\<close> it is the clicked
  button; anywhere else (a timer callback) it is \<open>undefined\<close> and the read
  throws, after the form switch and before the message is hidden.
\<close>

definition show_tab ::
  "string \<Rightarrow> string option \<Rightarrow> 'z auth_page_scheme \<Rightarrow> (js_error + unit) \<times> 'z auth_page_scheme" where
  "show_tab tab target s =
     (let s1 = s\<lparr>active_form := tab, active_tab := None\<rparr>
      in case target of
           None \<Rightarrow> (Inl (TypeError (''Cannot read properties of undefined (reading '' @ [CHR 0x27] @ ''target'' @ [CHR 0x27] @ '')'')), s1)
         | Some b \<Rightarrow> (Inr (), hide_message (s1\<lparr>active_tab := Some b\<rparr>)))"

text \<open>\<open>showLoading()\<close> and \<open>hideLoading()\<close> (lines 33--44).\<close>

definition auth_show_loading :: "'z auth_page_scheme \<Rightarrow> 'z auth_page_scheme" where
  "auth_show_loading s = s\<lparr>spinner_visible := True, forms_visible := False\<rparr>"

definition auth_hide_loading :: "'z auth_page_scheme \<Rightarrow> 'z auth_page_scheme" where
  "auth_hide_loading s = s\<lparr>spinner_visible := False, forms_visible := True\<rparr>"

section \<open>Token storage\<close>

text \<open>\<open>storeToken\<close>, \<open>getToken\<close>, \<open>clearToken\<close> (lines 64--76):
  \<open>setItem\<close> stores the string conversion of its argument.\<close>

definition store_token :: "jsval \<Rightarrow> 'z browser_scheme \<Rightarrow> 'z browser_scheme" where
  "store_token tok s = set_item ''access_token'' (to_str tok) s"

definition get_token :: "'z browser_scheme \<Rightarrow> jsval" where
  "get_token s = get_item ''access_token'' s"

definition clear_token :: "'z browser_scheme \<Rightarrow> 'z browser_scheme" where
  "clear_token s = remove_item ''access_token'' s"

section \<open>Login and registration\<close>

text \<open>
  \<open>login(email, password)\<close> (lines 107--125): POST the credentials; on
  success store \<open>data.access_token\<close>, show the success message and schedule
  the redirect after 2000 ms. A rejection of the request, or of the read of
  \<open>access_token\<close> on a \<open>null\<close> body, is shown as \<open>Login failed: \<close>.
\<close>

definition login ::
  "string \<Rightarrow> string \<Rightarrow> fetch_outcome \<Rightarrow> 'z auth_page_scheme \<Rightarrow> 'z auth_page_scheme" where
  "login email password out s =
     (let (r, s1) = auth_make_request ''/api/auth/login'' ''POST''
                      (Some (JObj [(''email'', JStr email), (''password'', JStr password)])) out s
      in case sbind r (\<lambda>data. get_prop data ''access_token'') of
           Inl e \<Rightarrow> show_message (''Login failed: '' @ err_message e) ''error'' s1
         | Inr tok \<Rightarrow>
             set_timeout Redirect_dashboard 2000
               (show_message ''Login successful! Redirecting...'' ''success'' (store_token tok s1)))"

text \<open>
  \<open>register(userData)\<close> (lines 128--147): POST the user data; on success
  show the message and schedule, after 2000 ms, the switch to the login tab
  and the pre-fill of \<open>loginEmail\<close> with \<open>userData.email\<close> (the callback
  closes over it).
\<close>

definition register ::
  "jsval obj \<Rightarrow> fetch_outcome \<Rightarrow> 'z auth_page_scheme \<Rightarrow> 'z auth_page_scheme" where
  "register ud out s =
     (let (r, s1) = auth_make_request ''/api/auth/register'' ''POST'' (Some (JObj ud)) out s
      in case r of
           Inl e \<Rightarrow> show_message (''Registration failed: '' @ err_message e) ''error'' s1
         | Inr _ \<Rightarrow>
             set_timeout (Show_login_tab (to_str (obj_get ud ''email''))) 2000
               (show_message ''Registration successful! Please login.'' ''success'' s1))"

section \<open>Form handlers\<close>

text \<open>The submit handler of the login form (lines 150--169); the two values
  are the form's \<open>email\<close> and \<open>password\<close> entries.\<close>

definition login_submit ::
  "string \<Rightarrow> string \<Rightarrow> fetch_outcome \<Rightarrow> 'z auth_page_scheme \<Rightarrow> 'z auth_page_scheme" where
  "login_submit email password out s =
     (if email = [] \<or> password = [] then show_message ''Please fill in all fields'' ''error'' s
      else auth_hide_loading (login email password out (auth_show_loading s)))"

text \<open>The submit handler of the registration form (lines 171--199).\<close>

definition register_data :: "string \<Rightarrow> string \<Rightarrow> string \<Rightarrow> string \<Rightarrow> jsval obj" where
  "register_data full_name email password role =
     [(''full_name'', JStr full_name), (''email'', JStr email), (''password'', JStr password), (''role'', JStr role)]"

definition register_submit ::
  "string \<Rightarrow> string \<Rightarrow> string \<Rightarrow> string \<Rightarrow> fetch_outcome \<Rightarrow> 'z auth_page_scheme \<Rightarrow> 'z auth_page_scheme" where
  "register_submit full_name email password role out s =
     (if full_name = [] \<or> email = [] \<or> password = [] then
        show_message ''Please fill in all required fields'' ''error'' s
      else if length password < 6 then
        show_message ''Password must be at least 6 characters long'' ''error'' s
      else auth_hide_loading (register (register_data full_name email password role) out (auth_show_loading s)))"

text \<open>The \<open>DOMContentLoaded\<close> handler (lines 202--216): with a stored token,
  GET \<open>/api/auth/me\<close>; success redirects to the dashboard, any rejection
  clears the token.\<close>

definition auth_loaded :: "fetch_outcome \<Rightarrow> 'z auth_page_scheme \<Rightarrow> 'z auth_page_scheme" where
  "auth_loaded out s =
     (if truthy (get_token s) then
        (let (r, s1) = auth_make_request ''/api/auth/me'' ''GET'' None out s
         in case r of
              Inr _ \<Rightarrow> navigate (Goto ''dashboard.html'') s1
            | Inl _ \<Rightarrow> clear_token s1)
      else s)"

section \<open>Validation\<close>

text \<open>
  \<open>validateEmail\<close> (lines 219--222) tests \<open>/^[^\s@]+@[^\s@]+\.[^\s@]+$/\<close>.
  The test below decides it without backtracking: no white space, a non-empty
  part before the first \<open>@\<close>, no further \<open>@\<close>, and a dot after the
  \<open>@\<close> that is neither the first nor the last character there.
  \<open>email_lang\<close> is the language of the expression, for the equivalence proof.
\<close>

definition validate_email :: "string \<Rightarrow> bool" where
  "validate_email s =
     (let a = takeWhile (\<lambda>c. c \<noteq> CHR ''@'') s;
          d = drop (Suc (length a)) s
      in list_all (\<lambda>c. \<not> js_ws c) s \<and> a \<noteq> [] \<and> length a < length s
         \<and> CHR ''@'' \<notin> set d \<and> CHR ''.'' \<in> set (butlast (tl d)))"



text \<open>The blur handler of \<open>registerEmail\<close> and the input handler of
  \<open>registerPassword\<close> (lines 225--237).\<close>

definition email_blur :: "string \<Rightarrow> 'z auth_page_scheme \<Rightarrow> 'z auth_page_scheme" where
  "email_blur v s =
     (if v \<noteq> [] \<and> \<not> validate_email v then show_message ''Please enter a valid email address'' ''error'' s else s)"

definition password_input :: "string \<Rightarrow> 'z auth_page_scheme \<Rightarrow> 'z auth_page_scheme" where
  "password_input v s =
     (if v \<noteq> [] \<and> length v < 6 then show_message ''Password must be at least 6 characters long'' ''error'' s else s)"

section \<open>Timers and events\<close>

text \<open>The callbacks this page schedules, run when they fire. An exception in
  a callback ends it: the pre-fill after \<open>showTab('login')\<close> is reached
  only if \<open>showTab\<close> returns.\<close>

fun auth_timer :: "timer_cb \<Rightarrow> 'z auth_page_scheme \<Rightarrow> 'z auth_page_scheme" where
  "auth_timer Hide_message s = hide_message s"
| "auth_timer Redirect_dashboard s = navigate (Goto ''dashboard.html'') s"
| "auth_timer (Show_login_tab em) s =
     (case show_tab ''login'' None s of
        (Inl _, s1) \<Rightarrow> s1
      | (Inr _, s1) \<Rightarrow> s1\<lparr>auth_inputs := (auth_inputs s1)(''loginEmail'' \<mapsto> em)\<rparr>)"
| "auth_timer Search_done s = s"

datatype auth_event =
    Login_submit string string fetch_outcome
  | Register_submit string string string string fetch_outcome
  | Tab_click string string
  | Email_blur string
  | Password_input string
  | Timer_fires

text \<open>One event of the page; \<open>None\<close> when a timer is to fire and none is
  pending.\<close>

fun auth_handle :: "auth_event \<Rightarrow> 'z auth_page_scheme \<Rightarrow> 'z auth_page_scheme option" where
  "auth_handle (Login_submit e p out) s = Some (login_submit e p out s)"
| "auth_handle (Register_submit n e p r out) s = Some (register_submit n e p r out s)"
| "auth_handle (Tab_click tab b) s = Some (snd (show_tab tab (Some b) s))"
| "auth_handle (Email_blur v) s = Some (email_blur v s)"
| "auth_handle (Password_input v) s = Some (password_input v s)"
| "auth_handle Timer_fires s = map_option (\<lambda>(cb, s1). auth_timer cb s1) (pop_timer s)"

text \<open>A sequence of events, in order.\<close>

fun auth_run :: "auth_event list \<Rightarrow> 'z auth_page_scheme \<Rightarrow> 'z auth_page_scheme option" where
  "auth_run [] s = Some s"
| "auth_run (ev # evs) s = (case auth_handle ev s of None \<Rightarrow> None | Some s1 \<Rightarrow> auth_run evs s1)"

text \<open>The states of the page after it has loaded: the \<open>DOMContentLoaded\<close>
  handler runs on a page that has navigated nowhere and scheduled nothing,
  then any events follow.\<close>

inductive auth_reach :: "'z auth_page_scheme \<Rightarrow> bool" where
  start: "navs s = [] \<Longrightarrow> timers s = [] \<Longrightarrow> auth_reach (auth_loaded out s)"
| step: "auth_reach s \<Longrightarrow> auth_handle ev s = Some s' \<Longrightarrow> auth_reach s'"

text \<open>What every reachable state keeps: navigations go only to the dashboard
  and a redirect is only pending once a token is stored.\<close>

definition auth_inv :: "'z auth_page_scheme \<Rightarrow> bool" where
  "auth_inv s \<longleftrightarrow> (\<forall>n \<in> set (navs s). n = Goto ''dashboard.html'' \<and> storage s ''access_token'' \<noteq> None)
                 \<and> (\<forall>t \<in> set (timers s). snd t = Redirect_dashboard \<longrightarrow> storage s ''access_token'' \<noteq> None)"

text \<open>The page as the HTML delivers it: login tab active, no message, nothing
  stored.\<close>

definition auth_page0 :: auth_page where
  "auth_page0 = \<lparr>storage = Map.empty, navs = [], requests = [], now = 0, timers = [],
     msg_text = [], msg_class = ''message'', msg_hidden = True, active_form = ''login'',
     active_tab = Some ''login'', spinner_visible = False, forms_visible = True, auth_inputs = Map.empty\<rparr>"

section \<open>Frames\<close>

lemma show_message_frame [simp]:
  "navs (show_message m t s) = navs s"
  "storage (show_message m t s) = storage s"
  "requests (show_message m t s) = requests s"
  "timers (show_message m t s) = timers s @ [(now s + 5000, Hide_message)]"
  "now (show_message m t s) = now s"
  "active_form (show_message m t s) = active_form s"
  "auth_inputs (show_message m t s) = auth_inputs s"
  by (simp_all add: show_message_def set_timeout_def)

lemma loading_frame [simp]:
  "navs (auth_show_loading s) = navs s" "storage (auth_show_loading s) = storage s"
  "timers (auth_show_loading s) = timers s" "now (auth_show_loading s) = now s"
  "requests (auth_show_loading s) = requests s"
  "navs (auth_hide_loading s) = navs s" "storage (auth_hide_loading s) = storage s"
  "timers (auth_hide_loading s) = timers s" "now (auth_hide_loading s) = now s"
  "requests (auth_hide_loading s) = requests s"
  "msg_text (auth_hide_loading s) = msg_text s" "msg_class (auth_hide_loading s) = msg_class s"
  "msg_hidden (auth_hide_loading s) = msg_hidden s"
  "active_form (auth_hide_loading s) = active_form s" "auth_inputs (auth_hide_loading s) = auth_inputs s"
  "active_form (auth_show_loading s) = active_form s" "auth_inputs (auth_show_loading s) = auth_inputs s"
  by (simp_all add: auth_show_loading_def auth_hide_loading_def)

lemma auth_make_request_result:
  "auth_make_request url meth body out s =
     (settle ''detail'' ''Network error'' out,
      s\<lparr>requests := requests s @ [\<lparr>req_method = meth, req_url = auth_base_url @ url,
                                  req_auth = bearer_if_truthy (get_item ''access_token'' s), req_body = body\<rparr>]\<rparr>)"
  by (simp add: auth_make_request_def Let_def send_def)

section \<open>Email validation\<close>




section \<open>Login\<close>

lemmas auth_ops = login_submit_def login_def auth_make_request_result store_token_def set_item_def
  show_message_def set_timeout_def auth_show_loading_def auth_hide_loading_def

text \<open>C2. A login whose response carries \<open>access_token\<close> stores the token, shows the success message and, when the next timer fires (the redirect, due before the message's hide), navigates to the dashboard.\<close>

theorem login_then_redirect:
  assumes "e \<noteq> []" and "p \<noteq> []" and "timers s = []"
    and "settle ''detail'' ''Network error'' out = Inr (JObj ps)" and "map_of ps ''access_token'' = Some tok"
  shows "\<exists>s'. auth_run [Login_submit e p out, Timer_fires] s = Some s'
          \<and> navs s' = navs s @ [Goto ''dashboard.html'']
          \<and> storage s' ''access_token'' = Some (to_str tok)
          \<and> msg_text s' = ''Login successful! Redirecting...''"
  using assms by (simp add: auth_ops obj_get_def pop_timer_def next_timer_def navigate_def)

text \<open>C3. A failed login (rejected request, or a body whose \<open>access_token\<close> cannot be read) stores nothing, navigates nowhere, schedules no redirect and shows \<open>Login failed: \<close> with the error's message.\<close>

theorem login_failure:
  assumes "e \<noteq> []" and "p \<noteq> []"
    and "sbind (settle ''detail'' ''Network error'' out) (\<lambda>data. get_prop data ''access_token'') = Inl err"
  shows "navs (login_submit e p out s) = navs s \<and> storage (login_submit e p out s) = storage s
       \<and> timers (login_submit e p out s) = timers s @ [(now s + 5000, Hide_message)]
       \<and> msg_text (login_submit e p out s) = ''Login failed: '' @ err_message err
       \<and> msg_class (login_submit e p out s) = ''message error'' \<and> \<not> msg_hidden (login_submit e p out s)"
  using assms by (simp add: auth_ops)

text \<open>C26. A 2xx login response without \<open>access_token\<close> counts as a success: the string \<open>undefined\<close> is stored as the token and the redirect is scheduled.\<close>

theorem login_missing_access_token:
  assumes "e \<noteq> []" and "p \<noteq> []"
    and "settle ''detail'' ''Network error'' out = Inr (JObj ps)" and "map_of ps ''access_token'' = None"
  shows "storage (login_submit e p out s) ''access_token'' = Some ''undefined''
       \<and> (now s + 2000, Redirect_dashboard) \<in> set (timers (login_submit e p out s))"
  using assms by (simp add: auth_ops obj_get_def)

section \<open>Registration\<close>

text \<open>C27. After a successful registration, the scheduled switch to the login tab throws on \<open>event.target\<close>: the login form becomes active but the e-mail field is not pre-filled.\<close>

theorem register_prefill_lost:
  assumes "n \<noteq> []" and "e \<noteq> []" and "6 \<le> length p" and "timers s = []"
    and "settle ''detail'' ''Network error'' out = Inr v"
  shows "\<exists>s'. auth_run [Register_submit n e p r out, Timer_fires] s = Some s'
          \<and> active_form s' = ''login'' \<and> active_tab s' = None
          \<and> auth_inputs s' ''loginEmail'' = auth_inputs s ''loginEmail''"
proof -
  from assms(3) have "p \<noteq> []" by auto
  with assms show ?thesis by (simp add: register_submit_def register_def register_data_def auth_make_request_result
      show_message_def set_timeout_def auth_show_loading_def auth_hide_loading_def pop_timer_def next_timer_def
      show_tab_def obj_get_def)
qed

text \<open>C39. A registration with a password shorter than 6 characters sends no request and shows the length message.\<close>

theorem register_short_password:
  assumes "n \<noteq> []" and "e \<noteq> []" and "p \<noteq> []" and "length p < 6"
  shows "requests (register_submit n e p r out s) = requests s
       \<and> msg_text (register_submit n e p r out s) = ''Password must be at least 6 characters long''"
  using assms by (simp add: register_submit_def show_message_def set_timeout_def)

section \<open>Loading with a stored token\<close>

text \<open>C37. On load with a stored token the page sends one GET to \<open>/api/auth/me\<close>; a rejection clears the token without navigating, a success navigates to the dashboard and keeps the storage.\<close>

theorem auth_loaded_token:
  assumes "truthy (get_token s)"
  shows "requests (auth_loaded out s) =
           requests s @ [\<lparr>req_method = ''GET'', req_url = auth_base_url @ ''/api/auth/me'',
                          req_auth = bearer_if_truthy (get_token s), req_body = None\<rparr>]
       \<and> (case settle ''detail'' ''Network error'' out of
            Inl _ \<Rightarrow> storage (auth_loaded out s) ''access_token'' = None \<and> navs (auth_loaded out s) = navs s
          | Inr _ \<Rightarrow> storage (auth_loaded out s) = storage s \<and> navs (auth_loaded out s) = navs s @ [Goto ''dashboard.html''])"
  using assms by (simp add: auth_loaded_def auth_make_request_result get_token_def clear_token_def
      remove_item_def navigate_def split: sum.split)


section \<open>Navigation safety\<close>

lemma auth_inv_show_message [simp]: "auth_inv (show_message m t s) = auth_inv s"
  by (auto simp: auth_inv_def)

lemma auth_inv_loading [simp]:
  "auth_inv (auth_show_loading s) = auth_inv s" "auth_inv (auth_hide_loading s) = auth_inv s"
  by (simp_all add: auth_inv_def)

lemma auth_inv_send [simp]: "auth_inv (send r s) = auth_inv s"
  by (simp add: auth_inv_def send_def)

lemma auth_inv_login: "auth_inv s \<Longrightarrow> auth_inv (login e p out s)"
  by (auto simp: login_def auth_make_request_result store_token_def set_item_def set_timeout_def
      auth_inv_def split: sum.split)

lemma auth_inv_register: "auth_inv s \<Longrightarrow> auth_inv (register ud out s)"
  by (auto simp: register_def auth_make_request_result set_timeout_def auth_inv_def split: sum.split)

lemma auth_inv_show_tab: "auth_inv s \<Longrightarrow> auth_inv (snd (show_tab tab b s))"
  by (auto simp: show_tab_def Let_def hide_message_def auth_inv_def split: option.split)

lemma auth_inv_timer:
  assumes "auth_inv s" and "pop_timer s = Some (cb, s1)"
  shows "auth_inv (auth_timer cb s1)"
proof -
  obtain d where nt: "next_timer (timers s) = Some (d, cb)"
    and s1: "s1 = s\<lparr>now := max (now s) d, timers := remove1 (d, cb) (timers s)\<rparr>"
    using assms(2) by (auto simp: pop_timer_def split: option.splits)
  have mem: "(d, cb) \<in> set (timers s)" using next_timer_Some(1)[OF nt] .
  have inv1: "auth_inv s1" using assms(1) by (auto simp: auth_inv_def s1 dest: set_remove1_subset[THEN subsetD])
  show ?thesis
  proof (cases cb)
    case Redirect_dashboard
    from mem assms(1) have "snd (d, cb) = Redirect_dashboard \<longrightarrow> storage s ''access_token'' \<noteq> None"
      unfolding auth_inv_def by blast
    with Redirect_dashboard have "storage s ''access_token'' \<noteq> None" by simp
    with inv1 show ?thesis by (simp add: Redirect_dashboard auth_inv_def navigate_def s1)
  next
    case (Show_login_tab em)
    with inv1 show ?thesis using auth_inv_show_tab[OF inv1, of "''login''" None]
      by (simp add: show_tab_def Let_def auth_inv_def)
  qed (use inv1 in \<open>simp_all add: auth_inv_def hide_message_def\<close>)
qed

lemma auth_inv_handle: "auth_inv s \<Longrightarrow> auth_handle ev s = Some s' \<Longrightarrow> auth_inv s'"
proof (cases ev)
  case Timer_fires
  assume "auth_inv s" and "auth_handle ev s = Some s'"
  then obtain cb s1 where "pop_timer s = Some (cb, s1)" and "s' = auth_timer cb s1"
    using Timer_fires by (auto split: option.splits)
  with \<open>auth_inv s\<close> show ?thesis using auth_inv_timer by blast
qed (auto simp: login_submit_def register_submit_def email_blur_def password_input_def
       auth_inv_login auth_inv_register auth_inv_show_tab)

lemma auth_inv_start: "navs s = [] \<Longrightarrow> timers s = [] \<Longrightarrow> auth_inv (auth_loaded out s)"
  by (auto simp: auth_loaded_def auth_make_request_result get_token_def get_item_def clear_token_def
      remove_item_def navigate_def auth_inv_def split: sum.split option.splits)

lemma auth_reach_inv: "auth_reach s \<Longrightarrow> auth_inv s"
proof (induction rule: auth_reach.induct)
  case (start s out)
  then show ?case by (rule auth_inv_start)
next
  case (step s ev s')
  then show ?case by (blast intro: auth_inv_handle)
qed

text \<open>C15. In every reachable state, a pending redirect to the dashboard implies a stored token.\<close>

theorem auth_reach_redirect_token:
  assumes "auth_reach s" and "(d, Redirect_dashboard) \<in> set (timers s)"
  shows "storage s ''access_token'' \<noteq> None"
  using auth_reach_inv[OF assms(1)] assms(2) unfolding auth_inv_def by fastforce

text \<open>C4. In every state reachable from a loaded page, every navigation is to \<open>dashboard.html\<close> and a token is stored.\<close>

theorem auth_reach_navigation:
  assumes "auth_reach s" and "n \<in> set (navs s)"
  shows "n = Goto ''dashboard.html'' \<and> storage s ''access_token'' \<noteq> None"
  using auth_reach_inv[OF assms(1)] assms(2) by (auto simp: auth_inv_def)

section \<open>Draining the timer queue\<close>

lemma show_tab_no_event:
  "show_tab tab None s =
     (Inl (TypeError (''Cannot read properties of undefined (reading '' @ [CHR 0x27] @ ''target'' @ [CHR 0x27] @ '')'')),
      s\<lparr>active_form := tab, active_tab := None\<rparr>)"
  by (simp add: show_tab_def)

lemma auth_timer_show_login_tab [simp]:
  "auth_timer (Show_login_tab em) s = s\<lparr>active_form := ''login'', active_tab := None\<rparr>"
  by (simp only: auth_timer.simps show_tab_no_event prod.case sum.case)

lemma auth_timer_timers [simp]: "timers (auth_timer cb s) = timers s"
  by (cases cb) (simp_all add: hide_message_def navigate_def show_tab_no_event)

lemma auth_timer_navs: "set (navs s) \<subseteq> set (navs (auth_timer cb s))"
  by (cases cb) (auto simp: hide_message_def navigate_def show_tab_no_event)

lemma auth_timer_redirect: "Goto ''dashboard.html'' \<in> set (navs (auth_timer Redirect_dashboard s))"
  by (simp add: navigate_def)

lemma pop_timer_cases:
  assumes "timers s \<noteq> []"
  obtains d cb where "pop_timer s = Some (cb, s\<lparr>now := max (now s) d, timers := remove1 (d, cb) (timers s)\<rparr>)"
    and "(d, cb) \<in> set (timers s)"
proof -
  obtain d cb where nt: "next_timer (timers s) = Some (d, cb)"
    using assms by (cases "next_timer (timers s)") auto
  then show ?thesis using that next_timer_Some(1)[OF nt] by (simp add: pop_timer_def)
qed

lemma auth_run_drain:
  "length (timers s) = n \<Longrightarrow>
   \<exists>s'. auth_run (replicate n Timer_fires) s = Some s' \<and> timers s' = [] \<and> set (navs s) \<subseteq> set (navs s')
        \<and> ((\<exists>d. (d, Redirect_dashboard) \<in> set (timers s)) \<longrightarrow> Goto ''dashboard.html'' \<in> set (navs s'))"
proof (induction n arbitrary: s)
  case 0
  then show ?case by simp
next
  case (Suc m)
  then have "timers s \<noteq> []" by auto
  then obtain d cb where pop: "pop_timer s = Some (cb, s\<lparr>now := max (now s) d, timers := remove1 (d, cb) (timers s)\<rparr>)"
    and mem: "(d, cb) \<in> set (timers s)" by (rule pop_timer_cases)
  let ?s2 = "auth_timer cb (s\<lparr>now := max (now s) d, timers := remove1 (d, cb) (timers s)\<rparr>)"
  have t2: "timers ?s2 = remove1 (d, cb) (timers s)" by simp
  have n2: "set (navs s) \<subseteq> set (navs ?s2)" using auth_timer_navs[of "s\<lparr>now := max (now s) d, timers := remove1 (d, cb) (timers s)\<rparr>" cb] by simp
  have "length (timers ?s2) = m" using Suc.prems mem by (simp add: t2 length_remove1)
  from Suc.IH[OF this] obtain s' where run: "auth_run (replicate m Timer_fires) ?s2 = Some s'"
    and e: "timers s' = []" and n': "set (navs ?s2) \<subseteq> set (navs s')"
    and r': "(\<exists>d. (d, Redirect_dashboard) \<in> set (timers ?s2)) \<longrightarrow> Goto ''dashboard.html'' \<in> set (navs s')" by blast
  have "Goto ''dashboard.html'' \<in> set (navs s')" if "(d', Redirect_dashboard) \<in> set (timers s)" for d'
  proof (cases "(d', Redirect_dashboard) = (d, cb)")
    case True
    then show ?thesis using n' auth_timer_redirect by auto
  next
    case False
    with that have "(d', Redirect_dashboard) \<in> set (timers ?s2)" by (simp add: t2)
    with r' show ?thesis by blast
  qed
  with run e n' n2 pop show ?case by auto
qed

text \<open>C16. Firing as many timers as are pending runs them all: the queue ends empty, and a pending redirect has navigated to the dashboard.\<close>

theorem auth_timers_drain:
  "\<exists>s'. auth_run (replicate (length (timers s)) Timer_fires) s = Some s' \<and> timers s' = []
        \<and> ((\<exists>d. (d, Redirect_dashboard) \<in> set (timers s)) \<longrightarrow> Goto ''dashboard.html'' \<in> set (navs s'))"
  using auth_run_drain[of s "length (timers s)"] by blast


section \<open>Witnesses\<close>

theorem login_then_redirect_witness:
  "\<exists>s'. auth_run [Login_submit ''a@b.za'' ''secret1'' (Response 200 (Inr (JObj [(''access_token'', JStr ''tok123'')]))),
                    Timer_fires] auth_page0 = Some s'
      \<and> navs s' = [Goto ''dashboard.html''] \<and> storage s' ''access_token'' = Some ''tok123''
      \<and> msg_text s' = ''Login successful! Redirecting...''"
  using login_then_redirect[of "''a@b.za''" "''secret1''" auth_page0
      "Response 200 (Inr (JObj [(''access_token'', JStr ''tok123'')]))" "[(''access_token'', JStr ''tok123'')]" "JStr ''tok123''"]
  by (simp add: auth_page0_def http_ok_def)

theorem login_failure_witness:
  "navs (login_submit ''a@b.za'' ''wrong1'' (Response 401 (Inr (JObj [(''detail'', JStr ''Invalid credentials'')]))) auth_page0) = []
   \<and> msg_text (login_submit ''a@b.za'' ''wrong1'' (Response 401 (Inr (JObj [(''detail'', JStr ''Invalid credentials'')]))) auth_page0)
       = ''Login failed: Invalid credentials''"
  using login_failure[of "''a@b.za''" "''wrong1''" "Response 401 (Inr (JObj [(''detail'', JStr ''Invalid credentials'')]))"
      "Error ''Invalid credentials''" auth_page0]
  by (simp add: auth_page0_def http_error_field obj_get_def)

theorem login_missing_access_token_witness:
  "storage (login_submit ''a@b.za'' ''secret1'' (Response 200 (Inr (JObj [(''token'', JStr ''t1'')]))) auth_page0) ''access_token''
     = Some ''undefined''"
  using login_missing_access_token[of "''a@b.za''" "''secret1''" "Response 200 (Inr (JObj [(''token'', JStr ''t1'')]))"
      "[(''token'', JStr ''t1'')]" auth_page0]
  by (simp add: http_ok_def)

theorem register_prefill_lost_witness:
  "\<exists>s'. auth_run [Register_submit ''Ann'' ''ann@b.za'' ''secret1'' ''bidder'' (Response 201 (Inr (JObj [])))
                    , Timer_fires] auth_page0 = Some s'
      \<and> active_form s' = ''login'' \<and> auth_inputs s' ''loginEmail'' = None"
  using register_prefill_lost[of "''Ann''" "''ann@b.za''" "''secret1''" auth_page0 "Response 201 (Inr (JObj []))" "JObj []" "''bidder''"]
  by (simp add: auth_page0_def http_ok_def) blast

theorem register_short_password_witness:
  "requests (register_submit ''Ann'' ''ann@b.za'' ''abc'' ''bidder'' Net_failure auth_page0) = []
   \<and> msg_text (register_submit ''Ann'' ''ann@b.za'' ''abc'' ''bidder'' Net_failure auth_page0)
       = ''Password must be at least 6 characters long''"
  using register_short_password[of "''Ann''" "''ann@b.za''" "''abc''" "''bidder''" Net_failure auth_page0]
  by (simp add: auth_page0_def)

theorem auth_loaded_token_witness:
  "storage (auth_loaded (Response 401 (Inr (JObj []))) (auth_page0\<lparr>storage := [''access_token'' \<mapsto> ''old'']\<rparr>)) ''access_token'' = None
   \<and> navs (auth_loaded (Response 401 (Inr (JObj []))) (auth_page0\<lparr>storage := [''access_token'' \<mapsto> ''old'']\<rparr>)) = []"
  using auth_loaded_token[of "auth_page0\<lparr>storage := [''access_token'' \<mapsto> ''old'']\<rparr>" "Response 401 (Inr (JObj []))"]
  by (simp add: auth_page0_def get_token_def get_item_def)

theorem auth_reach_navigation_witness:
  "\<exists>s :: auth_page. auth_reach s \<and> Goto ''dashboard.html'' \<in> set (navs s) \<and> storage s ''access_token'' \<noteq> None"
proof -
  let ?out = "Response 200 (Inr (JObj [(''access_token'', JStr ''tok123'')]))"
  let ?s1 = "login_submit ''a@b.za'' ''secret1'' ?out auth_page0"
  have r0: "auth_reach (auth_loaded Net_failure auth_page0)"
    by (rule auth_reach.start) (simp_all add: auth_page0_def)
  have l0: "auth_loaded Net_failure auth_page0 = auth_page0"
    by (simp add: auth_loaded_def get_token_def get_item_def auth_page0_def)
  have r1: "auth_reach ?s1"
    by (rule auth_reach.step[OF r0, of "Login_submit ''a@b.za'' ''secret1'' ?out"]) (simp add: l0)
  obtain s2 where h: "auth_handle Timer_fires ?s1 = Some s2" and n: "navs s2 = [Goto ''dashboard.html'']"
    by (simp add: auth_ops auth_page0_def http_ok_def obj_get_def pop_timer_def next_timer_def navigate_def)
  have r2: "auth_reach s2" by (rule auth_reach.step[OF r1 h])
  have m: "Goto ''dashboard.html'' \<in> set (navs s2)" by (simp add: n)
  have "storage s2 ''access_token'' \<noteq> None" using auth_reach_navigation[OF r2 m] by simp
  with r2 m show ?thesis by blast
qed

theorem auth_reach_redirect_token_witness:
  "\<exists>s :: auth_page. auth_reach s \<and> (2000, Redirect_dashboard) \<in> set (timers s) \<and> storage s ''access_token'' \<noteq> None"
proof -
  let ?out = "Response 200 (Inr (JObj [(''access_token'', JStr ''tok123'')]))"
  let ?s1 = "login_submit ''a@b.za'' ''secret1'' ?out auth_page0"
  have r0: "auth_reach (auth_loaded Net_failure auth_page0)"
    by (rule auth_reach.start) (simp_all add: auth_page0_def)
  have l0: "auth_loaded Net_failure auth_page0 = auth_page0"
    by (simp add: auth_loaded_def get_token_def get_item_def auth_page0_def)
  have r1: "auth_reach ?s1"
    by (rule auth_reach.step[OF r0, of "Login_submit ''a@b.za'' ''secret1'' ?out"]) (simp add: l0)
  have m: "(2000, Redirect_dashboard) \<in> set (timers ?s1)"
    by (simp add: auth_ops auth_page0_def http_ok_def obj_get_def)
  from auth_reach_redirect_token[OF r1 m] r1 m show ?thesis by blast
qed

theorem auth_timers_drain_witness:
  "\<exists>s'. auth_run (replicate 2 Timer_fires)
          (login_submit ''a@b.za'' ''secret1'' (Response 200 (Inr (JObj [(''access_token'', JStr ''tok123'')]))) auth_page0) = Some s'
      \<and> timers s' = [] \<and> Goto ''dashboard.html'' \<in> set (navs s')"
proof -
  let ?s = "login_submit ''a@b.za'' ''secret1'' (Response 200 (Inr (JObj [(''access_token'', JStr ''tok123'')]))) auth_page0"
  have t: "timers ?s = [(5000, Hide_message), (2000, Redirect_dashboard)]"
    by (simp add: auth_ops auth_page0_def http_ok_def obj_get_def)
  show ?thesis using auth_timers_drain[of ?s] by (simp add: t numeral_2_eq_2)
qed

end
