(* ===== verification/Dashboard_Page.thy ===== *)
theory Dashboard_Page
  imports Requests
begin

text \<open>
  The dashboard, \<open>src/phase 2/frontend/dashboard.js\<close>. Its state is the banner
  page (\<open>Browser\<close>) extended by the user panel (name, role badge text and
  class), the set of open modals and the values of the modal forms' inputs.
  The handlers: the \<open>DOMContentLoaded\<close> pair \<open>checkAuthentication\<close> and
  \<open>loadUserInfo\<close>, logout, the modal toggles and placeholder buttons, the
  search and team-creation submits, the outside click and the Escape key, and
  the timer callbacks; the page as a whole is a step function over its events
  and the set of states reachable from a loaded page.
\<close>

section \<open>State\<close>

record dash_page = banner_page +
  user_name :: string
  user_role :: string
  role_class :: string
  modals_open :: "string set"
  dash_inputs :: "string \<rightharpoonup> string"
  team_defaults :: "string \<rightharpoonup> string"

definition dash_input :: "string \<Rightarrow> 'z dash_page_scheme \<Rightarrow> string" where
  "dash_input el s = (case dash_inputs s el of None \<Rightarrow> [] | Some v \<Rightarrow> v)"

section \<open>Authentication and the user panel\<close>

text \<open>\<open>logout()\<close> (lines 89--92).\<close>

definition dash_logout :: "'z dash_page_scheme \<Rightarrow> 'z dash_page_scheme" where
  "dash_logout s = navigate (Goto ''index.html'') (remove_item ''access_token'' s)"

text \<open>\<open>checkAuthentication()\<close> (lines 16--22): without a token, request the
  login page. The \<open>return\<close> leaves only this function.\<close>

definition check_authentication :: "'z dash_page_scheme \<Rightarrow> 'z dash_page_scheme" where
  "check_authentication s =
     (if \<not> truthy (get_item ''access_token'' s) then navigate (Goto ''index.html'') s else s)"

text \<open>
  \<open>loadUserInfo()\<close> (lines 25--35): GET \<open>/api/auth/me\<close>, write the name,
  then the upper-cased role and the badge class. Any exception (a rejected
  request; \<open>undefined\<close> from the 401 branch of \<open>makeRequest\<close>, whose
  \<open>full_name\<close> cannot be read; a role that is not a string) shows the error
  message and logs out, after the writes that preceded it.
\<close>

definition load_user_info :: "fetch_outcome \<Rightarrow> 'z dash_page_scheme \<Rightarrow> 'z dash_page_scheme" where
  "load_user_info out s =
     (let (r, s1) = dash_make_request ''/api/auth/me'' ''GET'' None out s;
          fail = (\<lambda>t. dash_logout (show_message ''Failed to load user information'' ''error'' t))
      in case r of
           Inl _ \<Rightarrow> fail s1
         | Inr ud \<Rightarrow>
             (case get_prop ud ''full_name'' of
                Inl _ \<Rightarrow> fail s1
              | Inr fn \<Rightarrow>
                  (let s2 = s1\<lparr>user_name := text_content fn\<rparr>
                   in case get_prop ud ''role'' of
                        Inl _ \<Rightarrow> fail s2
                      | Inr role \<Rightarrow>
                          (case to_upper_case role of
                             Inl _ \<Rightarrow> fail s2
                           | Inr up \<Rightarrow> s2\<lparr>user_role := up, role_class := ''role-badge role-'' @ to_str role\<rparr>))))"

text \<open>The \<open>DOMContentLoaded\<close> handler (lines 10--13): both calls run, in
  order, whatever the first one found.\<close>

definition dash_loaded :: "fetch_outcome \<Rightarrow> 'z dash_page_scheme \<Rightarrow> 'z dash_page_scheme" where
  "dash_loaded out s = load_user_info out (check_authentication s)"

section \<open>Modals and placeholders\<close>

text \<open>\<open>showModal\<close>, \<open>closeModal\<close> and the buttons that use them or only
  show a message (lines 95--121).\<close>

definition show_modal :: "string \<Rightarrow> 'z dash_page_scheme \<Rightarrow> 'z dash_page_scheme" where
  "show_modal m s = s\<lparr>modals_open := insert m (modals_open s)\<rparr>"

definition close_modal :: "string \<Rightarrow> 'z dash_page_scheme \<Rightarrow> 'z dash_page_scheme" where
  "close_modal m s = s\<lparr>modals_open := modals_open s - {m}\<rparr>"

definition show_search_form :: "'z dash_page_scheme \<Rightarrow> 'z dash_page_scheme" where
  "show_search_form s = show_modal ''searchModal'' s"

definition show_team_form :: "'z dash_page_scheme \<Rightarrow> 'z dash_page_scheme" where
  "show_team_form s = show_modal ''teamModal'' s"

definition show_profile_form :: "'z dash_page_scheme \<Rightarrow> 'z dash_page_scheme" where
  "show_profile_form s = show_message ''Company profile management coming soon!'' ''info'' s"

definition show_saved_tenders :: "'z dash_page_scheme \<Rightarrow> 'z dash_page_scheme" where
  "show_saved_tenders s = show_message ''Saved tenders feature coming soon!'' ''info'' s"

section \<open>Search and team creation\<close>

text \<open>
  The search submit (lines 124--147) sends nothing: it shows a message and
  waits 2000 ms (\<open>Search_done\<close>), after which it reports completion and
  closes the modal. The \<open>catch\<close> cannot be reached.
\<close>

definition search_submit :: "'z dash_page_scheme \<Rightarrow> 'z dash_page_scheme" where
  "search_submit s =
     (if js_trim (dash_input ''searchKeywords'' s) = [] then
        show_message ''Please enter search keywords'' ''error'' s
      else set_timeout Search_done 2000 (show_message ''Searching tenders...'' ''info'' s))"

definition search_done :: "'z dash_page_scheme \<Rightarrow> 'z dash_page_scheme" where
  "search_done s =
     close_modal ''searchModal'' (show_message ''Search completed! Results will be displayed here.'' ''success'' s)"

text \<open>\<open>form.reset()\<close> on the team form: its controls return to the values
  the HTML gives them.\<close>

definition team_fields :: "string list" where
  "team_fields = [''teamName'', ''teamDescription'', ''teamPlan'']"

definition reset_team_form :: "'z dash_page_scheme \<Rightarrow> 'z dash_page_scheme" where
  "reset_team_form s =
     s\<lparr>dash_inputs := (\<lambda>k. if k \<in> set team_fields then team_defaults s k else dash_inputs s k)\<rparr>"

text \<open>
  The team submit (lines 150--179): POST the three values; on success show
  the created team's name, close the modal and reset the form. The 401 branch
  of \<open>makeRequest\<close> resolves to \<open>undefined\<close>, so reading \<open>result.name\<close>
  throws and the TypeError's text is shown, after the token was removed and
  the login page requested.
\<close>

definition team_data :: "'z dash_page_scheme \<Rightarrow> jsval obj" where
  "team_data s =
     [(''name'', JStr (dash_input ''teamName'' s)), (''description'', JStr (dash_input ''teamDescription'' s)),
      (''plan'', JStr (dash_input ''teamPlan'' s))]"

definition team_submit :: "fetch_outcome \<Rightarrow> 'z dash_page_scheme \<Rightarrow> 'z dash_page_scheme" where
  "team_submit out s =
     (if js_trim (dash_input ''teamName'' s) = [] then show_message ''Please enter a team name'' ''error'' s
      else
        (let (r, s1) = dash_make_request ''/api/teams/create'' ''POST'' (Some (JObj (team_data s))) out s
         in case sbind r (\<lambda>res. get_prop res ''name'') of
              Inl e \<Rightarrow> show_message (''Failed to create team: '' @ err_message e) ''error'' s1
            | Inr nm \<Rightarrow>
                reset_team_form (close_modal ''teamModal''
                  (show_message (''Team '' @ [CHR 0x22] @ to_str nm @ [CHR 0x22] @ '' created successfully!'') ''success'' s1))))"

section \<open>Document-wide handlers\<close>

text \<open>A click (lines 182--186) on an element of class \<open>modal\<close> (a modal's
  backdrop, \<open>Some m\<close>) hides it; other clicks (\<open>None\<close>) do nothing.\<close>

definition dash_click :: "string option \<Rightarrow> 'z dash_page_scheme \<Rightarrow> 'z dash_page_scheme" where
  "dash_click target s = (case target of Some m \<Rightarrow> close_modal m s | None \<Rightarrow> s)"

text \<open>A key press (lines 189--196): Escape hides every modal.\<close>

definition dash_keydown :: "string \<Rightarrow> 'z dash_page_scheme \<Rightarrow> 'z dash_page_scheme" where
  "dash_keydown key s = (if key = ''Escape'' then s\<lparr>modals_open := {}\<rparr> else s)"

section \<open>Timers and events\<close>

fun dash_timer :: "timer_cb \<Rightarrow> 'z dash_page_scheme \<Rightarrow> 'z dash_page_scheme" where
  "dash_timer Hide_message s = hide_message s"
| "dash_timer Search_done s = search_done s"
| "dash_timer Redirect_dashboard s = s"
| "dash_timer (Show_login_tab em) s = s"

datatype dash_event =
    Show_search | Show_team | Show_profile | Show_saved | Logout_click
  | Search_submit | Team_submit fetch_outcome
  | Click "string option" | Keydown string | Dash_timer_fires

fun dash_handle :: "dash_event \<Rightarrow> 'z dash_page_scheme \<Rightarrow> 'z dash_page_scheme option" where
  "dash_handle Show_search s = Some (show_search_form s)"
| "dash_handle Show_team s = Some (show_team_form s)"
| "dash_handle Show_profile s = Some (show_profile_form s)"
| "dash_handle Show_saved s = Some (show_saved_tenders s)"
| "dash_handle Logout_click s = Some (dash_logout s)"
| "dash_handle Search_submit s = Some (search_submit s)"
| "dash_handle (Team_submit out) s = Some (team_submit out s)"
| "dash_handle (Click t) s = Some (dash_click t s)"
| "dash_handle (Keydown k) s = Some (dash_keydown k s)"
| "dash_handle Dash_timer_fires s = map_option (\<lambda>(cb, s1). dash_timer cb s1) (pop_timer s)"

fun dash_run :: "dash_event list \<Rightarrow> 'z dash_page_scheme \<Rightarrow> 'z dash_page_scheme option" where
  "dash_run [] s = Some s"
| "dash_run (ev # evs) s = (case dash_handle ev s of None \<Rightarrow> None | Some s1 \<Rightarrow> dash_run evs s1)"


definition dash_page0 :: dash_page where
  "dash_page0 = \<lparr>storage = Map.empty, navs = [], requests = [], now = 0, timers = [],
     msg_text = [], msg_class = ''message'', msg_hidden = True, user_name = [], user_role = [],
     role_class = ''role-badge'', modals_open = {}, dash_inputs = Map.empty,
     team_defaults = [''teamPlan'' \<mapsto> ''free'']\<rparr>"

text \<open>The page with a stored token.\<close>

abbreviation dash_tok :: dash_page where
  "dash_tok \<equiv> dash_page0\<lparr>storage := [''access_token'' \<mapsto> ''t1'']\<rparr>"

section \<open>Properties of the dashboard\<close>

lemma dash_make_request_result:
  "dash_make_request url meth body out s =
     (let s1 = s\<lparr>requests := requests s @ [\<lparr>req_method = meth, req_url = auth_base_url @ url,
                                  req_auth = bearer_if_truthy (get_item ''access_token'' s), req_body = body\<rparr>]\<rparr>
      in case out of
           Response st b \<Rightarrow>
             if st = 401 then (Inr JUndef, navigate (Goto ''index.html'') (remove_item ''access_token'' s1))
             else (settle ''detail'' ''Network error'' out, s1)
         | Net_failure \<Rightarrow> (settle ''detail'' ''Network error'' out, s1))"
  by (simp add: dash_make_request_def Let_def send_def http_ok_def split: fetch_outcome.split)

lemma dash_show_message_frame [simp]:
  "navs (show_message m t s) = navs s" "storage (show_message m t s) = storage s"
  "requests (show_message m t s) = requests s" "modals_open (show_message m t s) = modals_open s"
  "user_name (show_message m t s) = user_name s"
  by (simp_all add: show_message_def set_timeout_def)

lemma dash_modals_frame [simp]:
  "modals_open (dash_logout s) = modals_open s"
  "modals_open (check_authentication s) = modals_open s"
  "modals_open (hide_message s) = modals_open s"
  by (simp_all add: dash_logout_def check_authentication_def navigate_def remove_item_def hide_message_def)

lemma load_user_info_frame:
  "modals_open (load_user_info out s) = modals_open s"
  "\<exists>xs. navs (load_user_info out s) = navs s @ xs"
  "requests (load_user_info out s) =
     requests s @ [\<lparr>req_method = ''GET'', req_url = auth_base_url @ ''/api/auth/me'',
                    req_auth = bearer_if_truthy (get_item ''access_token'' s), req_body = None\<rparr>]"
  by (auto simp: load_user_info_def dash_make_request_result Let_def dash_logout_def navigate_def remove_item_def
      split: fetch_outcome.split sum.split)

text \<open>C10. Loading the dashboard without a token requests the login page, but \<open>loadUserInfo\<close> still runs: one GET to \<open>/api/auth/me\<close> is sent, without an Authorization header.\<close>

theorem dash_loaded_no_token:
  assumes "\<not> truthy (get_item ''access_token'' s)"
  shows "requests (dash_loaded out s) =
           requests s @ [\<lparr>req_method = ''GET'', req_url = auth_base_url @ ''/api/auth/me'', req_auth = None, req_body = None\<rparr>]
       \<and> take (Suc (length (navs s))) (navs (dash_loaded out s)) = navs s @ [Goto ''index.html'']"
proof -
  let ?s1 = "check_authentication s"
  have n1: "navs ?s1 = navs s @ [Goto ''index.html'']" and st: "storage ?s1 = storage s"
    using assms by (simp_all add: check_authentication_def navigate_def)
  obtain xs where "navs (load_user_info out ?s1) = navs ?s1 @ xs" using load_user_info_frame(2) by blast
  moreover have "get_item ''access_token'' ?s1 = get_item ''access_token'' s" by (simp add: get_item_def st)
  moreover have "requests ?s1 = requests s" by (simp add: check_authentication_def navigate_def)
  ultimately show ?thesis using assms load_user_info_frame(3)[of out ?s1]
    by (simp add: dash_loaded_def n1 bearer_if_truthy_def)
qed

text \<open>C34. A 2xx answer with string \<open>full_name\<close> and \<open>role\<close> fills the user panel (the role upper-cased, the badge class from the role) and neither navigates nor touches the storage.\<close>

theorem load_user_info_success:
  assumes "out = Response st (Inr (JObj ps))" and "http_ok st"
    and "map_of ps ''full_name'' = Some (JStr n)" and "map_of ps ''role'' = Some (JStr r)"
  shows "user_name (load_user_info out s) = n \<and> user_role (load_user_info out s) = concat (map js_upper_char r)
       \<and> role_class (load_user_info out s) = ''role-badge role-'' @ r
       \<and> navs (load_user_info out s) = navs s \<and> storage (load_user_info out s) = storage s"
proof -
  have "st \<noteq> 401" using assms(2) by (auto simp: http_ok_def)
  with assms show ?thesis
    by (simp add: load_user_info_def dash_make_request_result Let_def obj_get_def text_content_def)
qed

text \<open>C13. Whenever the user data cannot be read (a rejected request, or the \<open>undefined\<close> of the 401 branch), the error message is shown and the user is logged out: token removed, login page requested last.\<close>

theorem load_user_info_error:
  assumes "sbind (fst (dash_make_request ''/api/auth/me'' ''GET'' None out s)) (\<lambda>ud. get_prop ud ''full_name'') = Inl e"
  shows "storage (load_user_info out s) ''access_token'' = None
       \<and> last (navs (load_user_info out s)) = Goto ''index.html''
       \<and> msg_text (load_user_info out s) = ''Failed to load user information''"
  using assms
  by (auto simp: load_user_info_def dash_make_request_result Let_def dash_logout_def navigate_def remove_item_def
      show_message_def set_timeout_def split: fetch_outcome.splits if_splits sum.splits)

text \<open>C29. A 401 answer to team creation removes the token and requests the login page, and the message shown is the TypeError of reading \<open>name\<close> of \<open>undefined\<close>; the modal stays as it was.\<close>

theorem team_submit_401:
  assumes "js_trim (dash_input ''teamName'' s) \<noteq> []"
  shows "msg_text (team_submit (Response 401 b) s) =
           ''Failed to create team: Cannot read properties of undefined (reading '' @ [CHR 0x27] @ ''name'' @ [CHR 0x27] @ '')''
       \<and> storage (team_submit (Response 401 b) s) ''access_token'' = None
       \<and> navs (team_submit (Response 401 b) s) = navs s @ [Goto ''index.html'']
       \<and> modals_open (team_submit (Response 401 b) s) = modals_open s"
  using assms by (simp add: team_submit_def dash_make_request_result show_message_def set_timeout_def
      navigate_def remove_item_def)

text \<open>C35. A successful team creation posts the three form values, shows the team's name, closes the team modal and resets the form's controls to their defaults.\<close>

theorem team_submit_success:
  assumes "js_trim (dash_input ''teamName'' s) \<noteq> []" and "out = Response st (Inr (JObj ps))" and "http_ok st"
    and "map_of ps ''name'' = Some nm"
  shows "''teamModal'' \<notin> modals_open (team_submit out s)
       \<and> msg_text (team_submit out s) = ''Team '' @ [CHR 0x22] @ to_str nm @ [CHR 0x22] @ '' created successfully!''
       \<and> map (dash_inputs (team_submit out s)) team_fields = map (team_defaults s) team_fields
       \<and> requests (team_submit out s) =
           requests s @ [\<lparr>req_method = ''POST'', req_url = auth_base_url @ ''/api/teams/create'',
                          req_auth = bearer_if_truthy (get_item ''access_token'' s), req_body = Some (JObj (team_data s))\<rparr>]"
proof -
  have "st \<noteq> 401" using assms(3) by (auto simp: http_ok_def)
  with assms show ?thesis
    by (simp add: team_submit_def dash_make_request_result Let_def obj_get_def show_message_def set_timeout_def
        close_modal_def reset_team_form_def team_fields_def)
qed

text \<open>C36. A search with non-blank keywords sends no request; when the next timer fires (the 2000 ms wait, due before the message's hide) completion is reported and the search modal closed.\<close>

theorem search_flow:
  assumes "js_trim (dash_input ''searchKeywords'' s) \<noteq> []" and "timers s = []"
  shows "\<exists>s'. dash_run [Search_submit, Dash_timer_fires] s = Some s'
          \<and> msg_text s' = ''Search completed! Results will be displayed here.''
          \<and> ''searchModal'' \<notin> modals_open s' \<and> requests s' = requests s"
  using assms by (simp add: search_submit_def search_done_def show_message_def set_timeout_def close_modal_def
      pop_timer_def next_timer_def)

text \<open>C40. A search with blank keywords only shows the error message: no search is scheduled and the modals are unchanged.\<close>

theorem search_blank:
  assumes "js_trim (dash_input ''searchKeywords'' s) = []"
  shows "msg_text (search_submit s) = ''Please enter search keywords''
       \<and> timers (search_submit s) = timers s @ [(now s + 5000, Hide_message)]
       \<and> modals_open (search_submit s) = modals_open s"
  using assms by (simp add: search_submit_def show_message_def set_timeout_def)



section \<open>Witnesses\<close>

theorem dash_loaded_no_token_witness:
  "requests (dash_loaded (Response 401 (Inr (JObj []))) dash_page0) =
     [\<lparr>req_method = ''GET'', req_url = auth_base_url @ ''/api/auth/me'', req_auth = None, req_body = None\<rparr>]
   \<and> take 1 (navs (dash_loaded (Response 401 (Inr (JObj []))) dash_page0)) = [Goto ''index.html'']"
  using dash_loaded_no_token[of dash_page0 "Response 401 (Inr (JObj []))"]
  by (simp add: dash_page0_def get_item_def)

theorem load_user_info_success_witness:
  "user_role (load_user_info (Response 200 (Inr (JObj [(''full_name'', JStr ''Ann Dube''), (''role'', JStr ''bidder'')]))) dash_tok)
     = ''BIDDER''
   \<and> user_name (load_user_info (Response 200 (Inr (JObj [(''full_name'', JStr ''Ann Dube''), (''role'', JStr ''bidder'')]))) dash_tok)
     = ''Ann Dube''"
proof -
  have u: "concat (map js_upper_char ''bidder'') = ''BIDDER''" by code_simp
  have "user_role (load_user_info (Response 200 (Inr (JObj [(''full_name'', JStr ''Ann Dube''), (''role'', JStr ''bidder'')]))) dash_tok)
          = concat (map js_upper_char ''bidder'')
        \<and> user_name (load_user_info (Response 200 (Inr (JObj [(''full_name'', JStr ''Ann Dube''), (''role'', JStr ''bidder'')]))) dash_tok)
          = ''Ann Dube''"
    using load_user_info_success[of "Response 200 (Inr (JObj [(''full_name'', JStr ''Ann Dube''), (''role'', JStr ''bidder'')]))"
        200 "[(''full_name'', JStr ''Ann Dube''), (''role'', JStr ''bidder'')]" "''Ann Dube''" "''bidder''" dash_tok]
    by (simp add: http_ok_def)
  then show ?thesis by (simp only: u)
qed

theorem load_user_info_error_witness:
  "storage (load_user_info (Response 401 (Inr (JObj []))) dash_tok) ''access_token'' = None
   \<and> msg_text (load_user_info (Response 401 (Inr (JObj []))) dash_tok) = ''Failed to load user information''"
  using load_user_info_error[of "Response 401 (Inr (JObj []))" dash_tok]
  by (simp add: dash_make_request_result Let_def)

theorem team_submit_401_witness:
  "storage (team_submit (Response 401 (Inr (JObj []))) (dash_tok\<lparr>dash_inputs := [''teamName'' \<mapsto> ''Alpha'']\<rparr>)) ''access_token'' = None
   \<and> msg_text (team_submit (Response 401 (Inr (JObj []))) (dash_tok\<lparr>dash_inputs := [''teamName'' \<mapsto> ''Alpha'']\<rparr>))
     = ''Failed to create team: Cannot read properties of undefined (reading '' @ [CHR 0x27] @ ''name'' @ [CHR 0x27] @ '')''"
proof -
  have "js_trim ''Alpha'' \<noteq> []" by code_simp
  then show ?thesis
    using team_submit_401[of "dash_tok\<lparr>dash_inputs := [''teamName'' \<mapsto> ''Alpha'']\<rparr>" "Inr (JObj [])"]
    by (simp add: dash_input_def)
qed

theorem team_submit_success_witness:
  "''teamModal'' \<notin> modals_open (team_submit (Response 201 (Inr (JObj [(''name'', JStr ''Alpha'')])))
                      (dash_tok\<lparr>dash_inputs := [''teamName'' \<mapsto> ''Alpha''], modals_open := {''teamModal''}\<rparr>))
   \<and> msg_text (team_submit (Response 201 (Inr (JObj [(''name'', JStr ''Alpha'')])))
                      (dash_tok\<lparr>dash_inputs := [''teamName'' \<mapsto> ''Alpha''], modals_open := {''teamModal''}\<rparr>))
     = ''Team '' @ [CHR 0x22] @ ''Alpha'' @ [CHR 0x22] @ '' created successfully!''"
proof -
  have "js_trim ''Alpha'' \<noteq> []" by code_simp
  then show ?thesis
    using team_submit_success[of "dash_tok\<lparr>dash_inputs := [''teamName'' \<mapsto> ''Alpha''], modals_open := {''teamModal''}\<rparr>"
        "Response 201 (Inr (JObj [(''name'', JStr ''Alpha'')]))" 201 "[(''name'', JStr ''Alpha'')]" "JStr ''Alpha''"]
    by (simp add: dash_input_def http_ok_def)
qed

theorem search_flow_witness:
  "\<exists>s'. dash_run [Search_submit, Dash_timer_fires]
          (dash_tok\<lparr>dash_inputs := [''searchKeywords'' \<mapsto> ''roads''], modals_open := {''searchModal''}\<rparr>) = Some s'
      \<and> ''searchModal'' \<notin> modals_open s' \<and> msg_text s' = ''Search completed! Results will be displayed here.''"
proof -
  have "js_trim ''roads'' \<noteq> []" by code_simp
  then show ?thesis
    using search_flow[of "dash_tok\<lparr>dash_inputs := [''searchKeywords'' \<mapsto> ''roads''], modals_open := {''searchModal''}\<rparr>"]
    by (simp add: dash_input_def dash_page0_def) blast
qed

theorem search_blank_witness:
  "msg_text (search_submit (dash_tok\<lparr>dash_inputs := [''searchKeywords'' \<mapsto> ''   '']\<rparr>)) = ''Please enter search keywords''"
proof -
  have "js_trim ''   '' = []" by code_simp
  then show ?thesis
    using search_blank[of "dash_tok\<lparr>dash_inputs := [''searchKeywords'' \<mapsto> ''   '']\<rparr>"]
    by (simp add: dash_input_def)
qed


end
