(* ===== verification/Spec2Isabelle.thy ===== *)
theory Spec2Isabelle
  imports Profile_Manager Auth_Page Dashboard_Page
begin

text \<open>
  Tender Insight Hub front end: a verification development of the three browser
  scripts under \<open>src/\<close>.

  \<^bold>\<open>The program.\<close> Three page scripts talk to a REST API and share nothing
  but the browser's \<open>localStorage\<close>:
  \<^item> \<open>src/phase 2/frontend/script.js\<close>, the login/registration page;
  \<^item> \<open>src/phase 2/frontend/dashboard.js\<close>, the dashboard with its
    authentication guard, user panel and modal forms;
  \<^item> \<open>src/profile_setup/frontend/app.js\<close>, the \<open>ProfileManager\<close> class of
    the company-profile editor and its page-level handlers.
  A page reacts to DOM events, to the outcomes of its \<open>fetch\<close> calls and to
  its timers; the login page writes the token the dashboard reads
  (\<open>access_token\<close>), the profile editor reads another key (\<open>authToken\<close>).

  \<^bold>\<open>Library layout.\<close>
  \<^item> \<open>Prelude\<close>: objects as insertion-ordered association lists, object
    spread (\<open>spread\<close>), the error-sequencing \<open>sbind\<close>, shared list lemmas.
  \<^item> \<open>Js_Values\<close>: ECMAScript values (\<open>jsval\<close>, numbers as rationals
    with \<open>NaN\<close> and the infinities), ToBoolean, property reads with their
    TypeErrors, ToString, \<open>parseInt\<close>/\<open>parseFloat\<close>/\<open>Number\<close>,
    \<open>toUpperCase\<close>, \<open>textContent\<close>, and \<open>JSON.parse(JSON.stringify v)\<close>
    (\<open>json_roundtrip\<close>). Strings are 8-bit (Latin-1) character lists.
  \<^item> \<open>Browser\<close>: the record every page extends (storage, requested
    navigations, sent requests, clock, pending timers), \<open>setTimeout\<close> and the
    event loop's choice of the next timer (\<open>next_timer\<close>, \<open>pop_timer\<close>),
    and the message banner (\<open>showMessage\<close>/\<open>hideMessage\<close> of both
    \<open>script.js\<close> and \<open>dashboard.js\<close>).
  \<^item> \<open>Requests\<close>: the three request helpers, \<open>makeRequest\<close> of
    \<open>script.js\<close> (\<open>auth_make_request\<close>) and of \<open>dashboard.js\<close>
    (\<open>dash_make_request\<close>), and \<open>ProfileManager.apiCall\<close> (\<open>api_call\<close>).
  \<^item> \<open>Auth_Page\<close>: every function and handler of \<open>script.js\<close>, one
    definition each (\<open>show_tab\<close>, \<open>login\<close>, \<open>register\<close>,
    \<open>login_submit\<close>, \<open>register_submit\<close>, \<open>auth_loaded\<close>,
    \<open>validate_email\<close>, the validators, \<open>auth_timer\<close>), the page as a
    step function over its events (\<open>auth_handle\<close>, \<open>auth_run\<close>) and its
    reachable states (\<open>auth_reach\<close>).
  \<^item> \<open>Dashboard_Page\<close>: every function and handler of \<open>dashboard.js\<close>
    (\<open>check_authentication\<close>, \<open>load_user_info\<close>, \<open>dash_logout\<close>, the
    modals, \<open>search_submit\<close>, \<open>team_submit\<close>, the click and key handlers,
    \<open>dash_timer\<close>), its step function and reachable states.
  \<^item> \<open>Profile_Manager\<close>: the \<open>ProfileManager\<close> state as a record and every
    method that changes it (constructor, \<open>init\<close>, \<open>login\<close>,
    \<open>logout\<close>, \<open>loadProfile\<close>, \<open>populateForms\<close>,
    \<open>handleFormSubmit\<close>, \<open>recalculateScore\<close>, \<open>exportProfile\<close>,
    \<open>updateUI\<close>, \<open>calculateSuccessRate\<close>, \<open>showLoading\<close>,
    \<open>showAlert\<close>), the turnover and percentage blur handlers and
    \<open>validateForm\<close>.
  \<^item> This theory: moving from one page to the next (\<open>next_page\<close> keeps
    only the storage) and the properties that span pages.

  \<^bold>\<open>How the code is modelled.\<close> Each handler is a function from the page
  state to the page state. The REST API is an external collaborator: the
  outcome of each request (\<open>fetch_outcome\<close>: a transport failure, or a
  status with a JSON or non-JSON body) is an argument of the handler, so every
  theorem holds for every answer the server can give. Promise rejections and
  thrown errors are the \<open>Inl\<close> side of \<open>js_error + 'a\<close>; an exception in a
  timer callback ends the callback, keeping the writes before it. A callback
  scheduled with \<open>setTimeout\<close> is a \<open>timer_cb\<close> value in the queue, fired by
  the page's \<open>Timer_fires\<close> event, earliest due time first.

  \<^bold>\<open>What the lemmas show.\<close>
  \<^item> Requests: the 401 behaviour of each helper (only the dashboard's clears
    the token and redirects).
  \<^item> Login page: login success redirects and failure does not; a missing
    \<open>access_token\<close> stores \<open>undefined\<close>; the registration pre-fill is lost;
    the e-mail test equals its regular expression; navigation safety and the
    redirect/token invariant over all reachable states (rule induction);
    the timer queue drains; the banner's uncancelled hide timer.
  \<^item> Dashboard: the request sent without a token, the user panel, logout on
    any error, the team and search flows, the open-modal invariant.
  \<^item> Profile manager: the success-rate formula and bounds, the score circle,
    numeric coercion and blank fields of submitted data, the merge after a
    save, export round trip, the turnover and percentage handlers, login and
    \<open>init\<close> behaviour.
  \<^item> Across pages: the storage-key mismatch between login page and profile
    editor, and the agreement between login page and dashboard.

  \<^bold>\<open>Bounds and fuel.\<close> No loop of the scripts can run forever: every
  recursion is structural or has a measure (\<open>lead_group\<close>, \<open>nat_str\<close>),
  and the event loop is explicit (\<open>auth_run\<close>, \<open>dash_run\<close> over a finite
  list of events). Numbers are exact rationals: the magnitudes the forms hold
  are far inside the range where doubles represent the integers exactly.

  \<^bold>\<open>Not modelled.\<close> The REST API itself (its answers are inputs); the
  HTML and CSS (element ids are assumed present, initial values are given by
  \<open>auth_page0\<close>, \<open>dash_page0\<close> and the profile manager's constructor
  arguments); Bootstrap beyond \<open>Modal.hide()\<close> being a no-op on an unshown
  instance; \<open>console\<close> logging; \<open>onTabChange\<close>, which only logs;
  \<open>setCustomValidity\<close>; the locale formatting of \<open>updated_at\<close>; the exact
  text of JSON parse errors; characters outside Latin-1; floating-point
  rounding of non-integral values.
\<close>


section \<open>Moving between pages\<close>

text \<open>A page loaded after another keeps only \<open>localStorage\<close>: no request,
  navigation or timer of the previous page survives.\<close>

definition next_page :: "'z browser_scheme \<Rightarrow> browser" where
  "next_page s = \<lparr>storage = storage s, navs = [], requests = [], now = now s, timers = []\<rparr>"

text \<open>The dashboard as it opens on a browser.\<close>

definition dash_page_on :: "browser \<Rightarrow> dash_page" where
  "dash_page_on b = dash_page0\<lparr>storage := storage b, now := now b\<rparr>"

section \<open>Properties across pages\<close>

lemma storage_next_page [simp]: "storage (next_page s) = storage s"
  by (simp add: next_page_def)

lemma login_submit_stores:
  assumes "e \<noteq> []" and "p \<noteq> []"
    and "settle ''detail'' ''Network error'' out = Inr (JObj ps)" and "map_of ps ''access_token'' = Some tok"
  shows "storage (login_submit e p out s) = (storage s)(''access_token'' \<mapsto> to_str tok)"
  using assms by (simp add: login_submit_def login_def auth_make_request_result store_token_def set_item_def
      show_message_def set_timeout_def auth_show_loading_def auth_hide_loading_def obj_get_def)

text \<open>C11. The two scripts keep the session under different keys: after a
  successful login on the login page, the profile manager opened next finds no
  token, and its \<open>init()\<close> takes the prompt path, which never attaches the
  form listeners.\<close>

theorem login_then_profile_no_token:
  assumes "e \<noteq> []" and "p \<noteq> []" and "storage s ''authToken'' = None"
    and "settle ''detail'' ''Network error'' out = Inr (JObj ps)" and "map_of ps ''access_token'' = Some tok"
  shows "pm_token (new_profile_manager (next_page (login_submit e p out s)) ins opts off) = JNull
       \<and> \<not> listeners_installed (pm_init em pw o1 o2 (new_profile_manager (next_page (login_submit e p out s)) ins opts off))"
proof -
  have st: "storage (login_submit e p out s) ''authToken'' = None"
    using assms(3) by (simp add: login_submit_stores[OF assms(1,2,4,5)])
  then have tok: "pm_token (new_profile_manager (next_page (login_submit e p out s)) ins opts off) = JNull"
    by (simp add: new_profile_manager_def get_item_def)
  then show ?thesis by (simp add: pm_init_def new_profile_manager_def)
qed

text \<open>C38. The dashboard reads the key the login page writes: opened after a
  successful login, it does not request the login page and sends the stored
  token with its \<open>/api/auth/me\<close> request.\<close>

theorem login_then_dashboard_token:
  assumes "e \<noteq> []" and "p \<noteq> []" and "to_str tok \<noteq> []"
    and "settle ''detail'' ''Network error'' out = Inr (JObj ps)" and "map_of ps ''access_token'' = Some tok"
  shows "navs (check_authentication (dash_page_on (next_page (login_submit e p out s)))) = []
       \<and> requests (dash_loaded o2 (dash_page_on (next_page (login_submit e p out s)))) =
           [\<lparr>req_method = ''GET'', req_url = auth_base_url @ ''/api/auth/me'',
             req_auth = Some (''Bearer '' @ to_str tok), req_body = None\<rparr>]"
proof -
  let ?d = "dash_page_on (next_page (login_submit e p out s))"
  have st: "storage ?d ''access_token'' = Some (to_str tok)"
    by (simp add: dash_page_on_def login_submit_stores[OF assms(1,2,4,5)])
  then have t: "truthy (get_item ''access_token'' ?d)" using assms(3) by (simp add: get_item_def)
  then have c: "check_authentication ?d = ?d" by (simp add: check_authentication_def)
  have "requests ?d = []" "navs ?d = []" by (simp_all add: dash_page_on_def dash_page0_def)
  with c st assms(3) show ?thesis
    using load_user_info_frame(3)[of o2 ?d]
    by (simp add: dash_loaded_def bearer_if_truthy_def get_item_def)
qed

section \<open>Witnesses\<close>

theorem login_then_profile_no_token_witness:
  "pm_token (new_profile_manager (next_page (login_submit ''a@b.za'' ''secret1''
      (Response 200 (Inr (JObj [(''access_token'', JStr ''tok123'')]))) auth_page0)) Map.empty [] 0) = JNull"
  using login_then_profile_no_token[of "''a@b.za''" "''secret1''" auth_page0
      "Response 200 (Inr (JObj [(''access_token'', JStr ''tok123'')]))" "[(''access_token'', JStr ''tok123'')]" "JStr ''tok123''"
      Map.empty "[]" 0 None None Net_failure Net_failure]
  by (simp add: auth_page0_def http_ok_def)

theorem login_then_dashboard_token_witness:
  "requests (dash_loaded Net_failure (dash_page_on (next_page (login_submit ''a@b.za'' ''secret1''
      (Response 200 (Inr (JObj [(''access_token'', JStr ''tok123'')]))) auth_page0)))) =
     [\<lparr>req_method = ''GET'', req_url = auth_base_url @ ''/api/auth/me'', req_auth = Some ''Bearer tok123'', req_body = None\<rparr>]"
  using login_then_dashboard_token[of "''a@b.za''" "''secret1''" "JStr ''tok123''"
      "Response 200 (Inr (JObj [(''access_token'', JStr ''tok123'')]))" "[(''access_token'', JStr ''tok123'')]" auth_page0 Net_failure]
  by (simp add: http_ok_def)

end
